theory Spec2Isabelle
  imports Complex_Main
begin

section \<open>Errors and the numpy array primitives used by halo\_occupation.py\<close>

text \<open>
  Floats are modelled as exact reals, numpy arrays of floats as lists of reals. Every
  exception the modelled code can raise is a value of \<open>py_error\<close>; a function that can
  raise returns \<open>py_error + 'a\<close> with \<open>Inl\<close> for the exception.
\<close>

datatype py_error = TypeError | AttributeError | IndexError | ValueError | OverflowError

type_synonym ndarray = "real list"

definition py_bind :: "py_error + 'a \<Rightarrow> ('a \<Rightarrow> py_error + 'b) \<Rightarrow> py_error + 'b" where
  "py_bind r f = (case r of Inl e \<Rightarrow> Inl e | Inr v \<Rightarrow> f v)"

definition np_zeros :: "nat \<Rightarrow> ndarray" where
  "np_zeros n = replicate n 0"

text \<open>\<open>np.where(a == v)[0]\<close>: the indices at which the array holds \<open>v\<close>, ascending.\<close>

definition np_where_eq :: "ndarray \<Rightarrow> real \<Rightarrow> nat list" where
  "np_where_eq a v = filter (\<lambda>i. a ! i = v) [0..<length a]"

text \<open>\<open>a[mask] = c\<close> for a boolean mask and a scalar \<open>c\<close>.\<close>

definition mask_set_scalar :: "ndarray \<Rightarrow> bool list \<Rightarrow> real \<Rightarrow> ndarray" where
  "mask_set_scalar a msk c = map (\<lambda>(x, b). if b then c else x) (zip a msk)"

text \<open>
  \<open>a[mask] = vals[mask]\<close> for a boolean mask: the selected positions of \<open>a\<close> receive the
  values of \<open>vals\<close> at the same positions. Only selected positions of \<open>vals\<close> are read.
\<close>

definition mask_set :: "ndarray \<Rightarrow> bool list \<Rightarrow> ndarray \<Rightarrow> ndarray" where
  "mask_set a msk vals = map (\<lambda>(x, b, v). if b then v else x) (zip a (zip msk vals))"

text \<open>
  \<open>a[idx]\<close> for an array of integer indices (a copy); numpy raises IndexError for an index
  past the end. The indices come from \<open>np.where\<close> and are never negative.
\<close>

definition fancy_get :: "ndarray \<Rightarrow> nat list \<Rightarrow> py_error + ndarray" where
  "fancy_get a idx =
     (if list_all (\<lambda>i. i < length a) idx then Inr (map (\<lambda>i. a ! i) idx) else Inl IndexError)"

text \<open>\<open>a[idx] = vals\<close> for integer indices in range, \<open>vals\<close> aligned with \<open>idx\<close>.\<close>

definition fancy_set :: "ndarray \<Rightarrow> nat list \<Rightarrow> ndarray \<Rightarrow> ndarray" where
  "fancy_set a idx vals = fold (\<lambda>(i, v) acc. acc[i := v]) (zip idx vals) a"

section \<open>Assembly\_Biased\_HOD\_Model: the destruction functions\<close>

text \<open>
  The abstract methods a concrete subclass supplies, and the baseline occupation model.
  Each is a numpy-vectorised function of the primary halo property: the model holds the
  scalar function and the array methods map it over the input array. The baseline model's
  \<open>mean_ncen\<close> and \<open>mean_nsat\<close> receive the halo type and ignore it (Zheng07\_HOD\_Model).
\<close>

record assembly_biased_hod_model =
  baseline_mean_ncen :: "real \<Rightarrow> real"
  baseline_mean_nsat :: "real \<Rightarrow> real"
  unconstrained_central_destruction_halo_type1 :: "real \<Rightarrow> real"
  unconstrained_satellite_destruction_halo_type1 :: "real \<Rightarrow> real"
  halo_type1_fraction_centrals :: "real \<Rightarrow> real"
  halo_type1_fraction_satellites :: "real \<Rightarrow> real"

definition all_ones_of :: "ndarray \<Rightarrow> ndarray" where
  "all_ones_of primary_halo_property = map (\<lambda>x. x + 1) (np_zeros (length primary_halo_property))"

definition halo_type_fraction_centrals ::
  "assembly_biased_hod_model \<Rightarrow> ndarray \<Rightarrow> ndarray \<Rightarrow> py_error + ndarray" where
  "halo_type_fraction_centrals m primary_halo_property halo_type =
     (let output_halo_type_fraction = map (halo_type1_fraction_centrals m) primary_halo_property;
          idx0 = np_where_eq halo_type 0
      in py_bind (fancy_get output_halo_type_fraction idx0) (\<lambda>sel.
           Inr (fancy_set output_halo_type_fraction idx0 (map (\<lambda>x. 1 - x) sel))))"

definition halo_type_fraction_satellites ::
  "assembly_biased_hod_model \<Rightarrow> ndarray \<Rightarrow> ndarray \<Rightarrow> py_error + ndarray" where
  "halo_type_fraction_satellites m primary_halo_property halo_type =
     (let output_halo_type_fraction = map (halo_type1_fraction_satellites m) primary_halo_property;
          idx0 = np_where_eq halo_type 0
      in py_bind (fancy_get output_halo_type_fraction idx0) (\<lambda>sel.
           Inr (fancy_set output_halo_type_fraction idx0 (map (\<lambda>x. 1 - x) sel))))"

definition maximum_destruction_centrals ::
  "assembly_biased_hod_model \<Rightarrow> ndarray \<Rightarrow> ndarray \<Rightarrow> py_error + ndarray" where
  "maximum_destruction_centrals m primary_halo_property halo_type =
     (let output_maximum_destruction_case1 = np_zeros (length primary_halo_property)
      in py_bind (halo_type_fraction_centrals m primary_halo_property halo_type)
        (\<lambda>halo_type_fraction.
          let idx_positive = map (\<lambda>f. f > 0) halo_type_fraction;
              output_maximum_destruction_case1 =
                mask_set output_maximum_destruction_case1 idx_positive
                  (map (\<lambda>f. 1 / f) halo_type_fraction);
              output_maximum_destruction_case2 = np_zeros (length primary_halo_property);
              mean_baseline_ncen = map (baseline_mean_ncen m) primary_halo_property;
              idx_nonzero_centrals = map (\<lambda>n. n > 0) mean_baseline_ncen;
              output_maximum_destruction_case2 =
                mask_set output_maximum_destruction_case2 idx_nonzero_centrals
                  (map (\<lambda>n. 1 / n) mean_baseline_ncen);
              idx_case2_supercedes_case1 =
                map (\<lambda>(c2, c1). c2 < c1)
                  (zip output_maximum_destruction_case2 output_maximum_destruction_case1)
          in Inr (mask_set output_maximum_destruction_case1 idx_case2_supercedes_case1
                    output_maximum_destruction_case2)))"

definition maximum_destruction_satellites ::
  "assembly_biased_hod_model \<Rightarrow> ndarray \<Rightarrow> ndarray \<Rightarrow> py_error + ndarray" where
  "maximum_destruction_satellites m primary_halo_property halo_type =
     (let output_maximum_destruction = np_zeros (length primary_halo_property)
      in py_bind (halo_type_fraction_satellites m primary_halo_property halo_type)
        (\<lambda>halo_type_fraction.
          let idx_positive = map (\<lambda>f. f > 0) halo_type_fraction
          in Inr (mask_set output_maximum_destruction idx_positive
                    (map (\<lambda>f. 1 / f) halo_type_fraction))))"

text \<open>
  The part of \<open>destruction_centrals\<close> and \<open>destruction_satellites\<close> after the type-1 branch
  has been conditioned: the halos labelled type 0 are read out, given the value the
  conservation law dictates, and written back.
\<close>

definition destruction_type0_branch ::
  "ndarray \<Rightarrow> ndarray \<Rightarrow> ndarray \<Rightarrow> nat list \<Rightarrow> py_error + ndarray" where
  "destruction_type0_branch output_destruction_allhalos primary_halo_property probability_type1 idx0 =
     py_bind (fancy_get output_destruction_allhalos idx0) (\<lambda>output_destruction_input_halo_type0.
     py_bind (fancy_get primary_halo_property idx0) (\<lambda>primary_halo_property_input_halo_type0.
     py_bind (fancy_get probability_type1 idx0) (\<lambda>probability_type1_input_halo_type0.
       let probability_type0_input_halo_type0 =
             map (\<lambda>x. 1 - x) probability_type1_input_halo_type0;
           test_positive = map (\<lambda>x. x > 0) probability_type0_input_halo_type0;
           output_destruction_input_halo_type0 =
             mask_set output_destruction_input_halo_type0 test_positive
               (map (\<lambda>(d, p1, p0). (1 - d * p1) / p0)
                  (zip output_destruction_input_halo_type0
                     (zip probability_type1_input_halo_type0
                          probability_type0_input_halo_type0)));
           test_zero = map (\<lambda>x. x = 0) probability_type0_input_halo_type0;
           output_destruction_input_halo_type0 =
             mask_set_scalar output_destruction_input_halo_type0 test_zero 0
       in Inr (fancy_set output_destruction_allhalos idx0
                 output_destruction_input_halo_type0))))"

definition destruction_satellites ::
  "assembly_biased_hod_model \<Rightarrow> ndarray \<Rightarrow> ndarray \<Rightarrow> py_error + ndarray" where
  "destruction_satellites m primary_halo_property halo_type =
     (let idx0 = np_where_eq halo_type 0;
          all_ones = all_ones_of primary_halo_property;
          output_destruction_allhalos =
            map (unconstrained_satellite_destruction_halo_type1 m) primary_halo_property;
          test_negative = map (\<lambda>d. d < 0) output_destruction_allhalos;
          output_destruction_allhalos = mask_set_scalar output_destruction_allhalos test_negative 0
      in py_bind (maximum_destruction_satellites m primary_halo_property all_ones) (\<lambda>maximum.
           let test_exceeds_maximum =
                 map (\<lambda>(d, mx). d > mx) (zip output_destruction_allhalos maximum);
               output_destruction_allhalos =
                 mask_set output_destruction_allhalos test_exceeds_maximum maximum
           in py_bind (halo_type_fraction_satellites m primary_halo_property all_ones)
             (\<lambda>probability_type1.
               let test_unit_probability = map (\<lambda>p. p = 1) probability_type1;
                   output_destruction_allhalos =
                     mask_set_scalar output_destruction_allhalos test_unit_probability 1
               in destruction_type0_branch output_destruction_allhalos primary_halo_property
                    probability_type1 idx0)))"

definition destruction_centrals ::
  "assembly_biased_hod_model \<Rightarrow> ndarray \<Rightarrow> ndarray \<Rightarrow> py_error + ndarray" where
  "destruction_centrals m primary_halo_property halo_type =
     (let idx0 = np_where_eq halo_type 0;
          all_ones = all_ones_of primary_halo_property;
          output_destruction_allhalos =
            map (unconstrained_central_destruction_halo_type1 m) primary_halo_property;
          test_negative = map (\<lambda>d. d < 0) output_destruction_allhalos;
          output_destruction_allhalos = mask_set_scalar output_destruction_allhalos test_negative 0
      in py_bind (maximum_destruction_centrals m primary_halo_property all_ones) (\<lambda>maximum.
           let test_exceeds_maximum =
                 map (\<lambda>(d, mx). d > mx) (zip output_destruction_allhalos maximum);
               output_destruction_allhalos =
                 mask_set output_destruction_allhalos test_exceeds_maximum maximum
           in py_bind (halo_type_fraction_centrals m primary_halo_property all_ones)
             (\<lambda>probability_type1.
               let test_unit_probability = map (\<lambda>p. p = 1) probability_type1;
                   output_destruction_allhalos =
                     mask_set_scalar output_destruction_allhalos test_unit_probability 1
               in destruction_type0_branch output_destruction_allhalos primary_halo_property
                    probability_type1 idx0)))"

text \<open>
  The type-conditioned mean occupations of the assembly-biased model:
  the destruction function times the baseline occupation.
\<close>

definition mean_ncen ::
  "assembly_biased_hod_model \<Rightarrow> ndarray \<Rightarrow> ndarray \<Rightarrow> py_error + ndarray" where
  "mean_ncen m primary_halo_property halo_type =
     py_bind (destruction_centrals m primary_halo_property halo_type) (\<lambda>d.
       Inr (map (\<lambda>(x, y). x * y) (zip d (map (baseline_mean_ncen m) primary_halo_property))))"

definition mean_nsat ::
  "assembly_biased_hod_model \<Rightarrow> ndarray \<Rightarrow> ndarray \<Rightarrow> py_error + ndarray" where
  "mean_nsat m primary_halo_property halo_type =
     py_bind (destruction_satellites m primary_halo_property halo_type) (\<lambda>d.
       Inr (map (\<lambda>(x, y). x * y) (zip d (map (baseline_mean_nsat m) primary_halo_property))))"

section \<open>Closed forms of the destruction functions, element by element\<close>

text \<open>
  Auxiliary scalar functions used to state what the array code computes at one element:
  the two ceilings, the conditioned type-1 value (floor, ceiling, then the override for a
  unit type-1 fraction) and the type-0 value derived from it.
\<close>

definition ceiling_centrals :: "real \<Rightarrow> real \<Rightarrow> real" where
  "ceiling_centrals f1 n =
     (let c1 = (if f1 > 0 then 1 / f1 else 0); c2 = (if n > 0 then 1 / n else 0)
      in if c2 < c1 then c2 else c1)"

definition ceiling_satellites :: "real \<Rightarrow> real" where
  "ceiling_satellites f1 = (if f1 > 0 then 1 / f1 else 0)"

definition clamped_type1 :: "real \<Rightarrow> real \<Rightarrow> real \<Rightarrow> real" where
  "clamped_type1 u mx f1 =
     (if f1 = 1 then 1 else let d = (if u < 0 then 0 else u) in if d > mx then mx else d)"

definition derived_type0 :: "real \<Rightarrow> real \<Rightarrow> real" where
  "derived_type0 d1 f1 =
     (if 1 - f1 = 0 then 0 else if 1 - f1 > 0 then (1 - d1 * f1) / (1 - f1) else d1)"

definition type1_centrals :: "assembly_biased_hod_model \<Rightarrow> real \<Rightarrow> real" where
  "type1_centrals m x =
     clamped_type1 (unconstrained_central_destruction_halo_type1 m x)
       (ceiling_centrals (halo_type1_fraction_centrals m x) (baseline_mean_ncen m x))
       (halo_type1_fraction_centrals m x)"

definition type1_satellites :: "assembly_biased_hod_model \<Rightarrow> real \<Rightarrow> real" where
  "type1_satellites m x =
     clamped_type1 (unconstrained_satellite_destruction_halo_type1 m x)
       (ceiling_satellites (halo_type1_fraction_satellites m x))
       (halo_type1_fraction_satellites m x)"

text \<open>
  A concrete assembly-biased model on which the theorems below are instantiated: the type-1
  fraction is 0 below 12, 1/4 up to 14 and 1 from 14 on; the unconstrained destruction is 5
  below 13 and negative above; the baseline central occupation vanishes from 14 on.
\<close>

definition demo_model :: assembly_biased_hod_model where
  "demo_model =
     \<lparr> baseline_mean_ncen = (\<lambda>x. if x < 14 then 1 / 2 else 0),
       baseline_mean_nsat = (\<lambda>x. 3),
       unconstrained_central_destruction_halo_type1 = (\<lambda>x. if x < 13 then 5 else - 2),
       unconstrained_satellite_destruction_halo_type1 = (\<lambda>x. if x < 13 then 5 else - 2),
       halo_type1_fraction_centrals = (\<lambda>x. if x < 12 then 0 else if x < 14 then 1 / 4 else 1),
       halo_type1_fraction_satellites = (\<lambda>x. if x < 12 then 0 else if x < 14 then 1 / 4 else 1) \<rparr>"

section \<open>HOD\_Model and Zheng07\_HOD\_Model: construction and published parameters\<close>

text \<open>
  The Python values a caller can pass as \<open>threshold\<close>: \<open>None\<close>, an \<open>int\<close>, a \<open>float\<close>, or
  something that is neither (a string stands for every non-numeric value).
\<close>

datatype py_value = PyNone | PyInt int | PyFloat real | PyStr string

text \<open>A parameter dictionary: a Python dict literal, as its list of items (keys unique).\<close>

type_synonym param_dict = "(string \<times> real) list"

text \<open>
  The attributes of an instance. \<open>warnings_issued\<close> records the calls of \<open>warnings.warn\<close>
  made on behalf of the instance, in order.
\<close>

record hod_model =
  publication :: "string list"
  parameter_dict :: "param_dict option"
  threshold :: "real option"
  warnings_issued :: "string list"

text \<open>\<open>HOD_Model.__init__(self, parameter_dict=None, threshold=None)\<close>.\<close>

definition HOD_Model_init :: "param_dict option \<Rightarrow> real option \<Rightarrow> hod_model" where
  "HOD_Model_init parameter_dict_arg threshold_arg =
     \<lparr> publication = [], parameter_dict = parameter_dict_arg, threshold = threshold_arg,
       warnings_issued = [] \<rparr>"

text \<open>\<open>np.arange(start, stop, step)\<close> for a positive step.\<close>

definition np_arange :: "real \<Rightarrow> real \<Rightarrow> real \<Rightarrow> ndarray" where
  "np_arange start stop step =
     map (\<lambda>k. start + real k * step) [0..<nat \<lceil>(stop - start) / step\<rceil>]"

definition logMmin_cen_array :: "real list" where
  "logMmin_cen_array = [11.35, 11.46, 11.6, 11.75, 12.02, 12.3, 12.79, 13.38, 14.22]"

definition sigma_logM_array :: "real list" where
  "sigma_logM_array = [0.25, 0.24, 0.26, 0.28, 0.26, 0.21, 0.39, 0.51, 0.77]"

definition logM0_array :: "real list" where
  "logM0_array = [11.2, 10.59, 11.49, 11.69, 11.38, 11.84, 11.92, 13.94, 14.0]"

definition logM1_array :: "real list" where
  "logM1_array = [12.4, 12.68, 12.83, 13.01, 13.31, 13.58, 13.94, 13.91, 14.69]"

definition alpha_sat_array :: "real list" where
  "alpha_sat_array = [0.83, 0.97, 1.02, 1.06, 1.06, 1.12, 1.15, 1.04, 0.87]"

definition threshold_array :: "real list" where
  "threshold_array = rev (np_arange (- 22) (- 17.5) 0.5)"

text \<open>
  \<open>Zheng07_HOD_Model.published_parameters(self, threshold=None)\<close>. It rebinds
  \<open>self.threshold\<close> before the table lookup, so the model returns the dictionary together
  with the updated instance. Both \<open>raise TypeError\<close> statements of the source are the
  \<open>Inl TypeError\<close> branches.
\<close>

definition published_parameters ::
  "hod_model \<Rightarrow> py_value \<Rightarrow> py_error + (param_dict \<times> hod_model)" where
  "published_parameters self threshold_arg =
     py_bind
       (case threshold_arg of
          PyNone \<Rightarrow>
            Inr (self\<lparr> warnings_issued :=
                         warnings_issued self @ [''HOD threshold unspecified: setting to -19.5''],
                       threshold := Some (- 19.5) \<rparr>)
        | PyInt n \<Rightarrow> Inr (self\<lparr> threshold := Some (real_of_int n) \<rparr>)
        | PyFloat x \<Rightarrow> Inr (self\<lparr> threshold := Some x \<rparr>)
        | PyStr s \<Rightarrow> Inl TypeError)
       (\<lambda>self.
          case threshold self of
            None \<Rightarrow> Inl TypeError
          | Some self_threshold \<Rightarrow>
              let threshold_index = np_where_eq threshold_array self_threshold
              in if length threshold_index = 1
                 then Inr ([(''logMmin_cen'', logMmin_cen_array ! (threshold_index ! 0)),
                            (''sigma_logM'', sigma_logM_array ! (threshold_index ! 0)),
                            (''logM0_sat'', logM0_array ! (threshold_index ! 0)),
                            (''logM1_sat'', logM1_array ! (threshold_index ! 0)),
                            (''alpha_sat'', alpha_sat_array ! (threshold_index ! 0)),
                            (''fconc'', 1)], self)
                 else Inl TypeError)"

text \<open>
  \<open>Zheng07_HOD_Model.require_correct_keys(self)\<close>. \<open>self.parameter_dict.keys()\<close> on
  \<open>None\<close> raises AttributeError.
\<close>

definition require_correct_keys :: "hod_model \<Rightarrow> py_error + hod_model" where
  "require_correct_keys self =
     py_bind (published_parameters self (PyInt (- 20))) (\<lambda>(correct, self).
       let correct_set_of_keys = set (map fst correct)
       in case parameter_dict self of
            None \<Rightarrow> Inl AttributeError
          | Some d \<Rightarrow>
              if set (map fst d) \<noteq> correct_set_of_keys then Inl TypeError else Inr self)"

text \<open>\<open>Zheng07_HOD_Model.__init__(self, parameter_dict=None, threshold=None)\<close>.\<close>

definition Zheng07_HOD_Model_init ::
  "param_dict option \<Rightarrow> py_value \<Rightarrow> py_error + hod_model" where
  "Zheng07_HOD_Model_init parameter_dict_arg threshold_arg =
     (let self = HOD_Model_init None None;
          self = self\<lparr> publication := publication self @ [''arXiv:0703457''] \<rparr>
      in py_bind
           (case parameter_dict_arg of
              None \<Rightarrow>
                py_bind (published_parameters self threshold_arg) (\<lambda>(d, self).
                  Inr (self\<lparr> parameter_dict := Some d \<rparr>))
            | Some d \<Rightarrow> Inr self)
           require_correct_keys)"

text \<open>The key set the model requires, and the nine published luminosity thresholds.\<close>

definition zheng07_keys :: "string set" where
  "zheng07_keys =
     {''logMmin_cen'', ''sigma_logM'', ''logM0_sat'', ''logM1_sat'', ''alpha_sat'', ''fconc''}"

definition published_thresholds :: "real list" where
  "published_thresholds = [- 18, - 18.5, - 19, - 19.5, - 20, - 20.5, - 21, - 21.5, - 22]"

text \<open>A threshold argument that is a number equal to one of the nine published values.\<close>

definition is_published :: "py_value \<Rightarrow> bool" where
  "is_published t =
     (case t of
        PyNone \<Rightarrow> False
      | PyInt n \<Rightarrow> real_of_int n \<in> set published_thresholds
      | PyFloat x \<Rightarrow> x \<in> set published_thresholds
      | PyStr s \<Rightarrow> False)"

section \<open>Assembly\_Biased\_HOD\_Model.halo\_type\_calculator\<close>

text \<open>
  The module is Python 2 code: the built-in \<open>round\<close> rounds halves away from zero, and
  \<open>int\<close> of its result is that integer.
\<close>

definition py_round :: "real \<Rightarrow> int" where
  "py_round x = (if 0 \<le> x then \<lfloor>x + 1 / 2\<rfloor> else \<lceil>x - 1 / 2\<rceil>)"

text \<open>\<open>np.linspace(start, stop, num)\<close> for \<open>num \<ge> 0\<close>, and \<open>np.diff\<close>.\<close>

definition np_linspace :: "real \<Rightarrow> real \<Rightarrow> nat \<Rightarrow> ndarray" where
  "np_linspace start stop num =
     (if num = 0 then []
      else if num = 1 then [start]
      else map (\<lambda>i. start + real i * ((stop - start) / real (num - 1))) [0..<num])"

definition np_diff :: "ndarray \<Rightarrow> ndarray" where
  "np_diff a = map (\<lambda>i. a ! Suc i - a ! i) [0..<length a - 1]"

text \<open>
  \<open>np.digitize(x, bins)\<close>: for non-decreasing bins the number of bin edges that are
  \<open>\<le> x\<close> (so that \<open>bins[i-1] \<le> x < bins[i]\<close>); for decreasing bins the index \<open>i\<close> with
  \<open>bins[i-1] > x \<ge> bins[i]\<close>; ValueError when the bins are not monotonic.
\<close>

definition np_digitize :: "ndarray \<Rightarrow> ndarray \<Rightarrow> py_error + int list" where
  "np_digitize x bins =
     (if sorted bins then Inr (map (\<lambda>v. int (length (filter (\<lambda>e. e \<le> v) bins))) x)
      else if sorted (rev bins)
      then Inr (map (\<lambda>v. int (length bins) - int (length (filter (\<lambda>e. e \<le> v) bins))) x)
      else Inl ValueError)"

text \<open>\<open>a[i]\<close> for a Python integer \<open>i\<close>: a negative index counts from the end.\<close>

definition py_getitem :: "ndarray \<Rightarrow> int \<Rightarrow> py_error + real" where
  "py_getitem a i =
     (if 0 \<le> i \<and> i < int (length a) then Inr (a ! nat i)
      else if i < 0 \<and> - int (length a) \<le> i then Inr (a ! nat (int (length a) + i))
      else Inl IndexError)"

text \<open>The slice \<open>a[0:k]\<close>: a negative \<open>k\<close> counts from the end, a large \<open>k\<close> is clipped.\<close>

definition py_slice_to :: "'a list \<Rightarrow> int \<Rightarrow> 'a list" where
  "py_slice_to a k = (if k < 0 then take (length a - nat (- k)) a else take (nat k) a)"

text \<open>
  \<open>a[mask]\<close> for a boolean mask (IndexError when the mask's length differs from the
  array's) and \<open>a[mask] = vals\<close>, which fills the selected positions in order.
\<close>

definition bool_index :: "ndarray \<Rightarrow> bool list \<Rightarrow> py_error + ndarray" where
  "bool_index a msk =
     (if length msk \<noteq> length a then Inl IndexError
      else Inr (map fst (filter snd (zip a msk))))"

fun mask_put :: "ndarray \<Rightarrow> bool list \<Rightarrow> ndarray \<Rightarrow> ndarray" where
  "mask_put [] msk vals = []"
| "mask_put (x # xs) [] vals = x # xs"
| "mask_put (x # xs) (False # msk) vals = x # mask_put xs msk vals"
| "mask_put (x # xs) (True # msk) [] = x # mask_put xs msk []"
| "mask_put (x # xs) (True # msk) (v # vals) = v # mask_put xs msk vals"

text \<open>
  \<open>np.argsort(a)\<close> returns indices that sort \<open>a\<close> in ascending order. numpy's default
  sort is not stable: the order it gives to equal values is not determined by their
  positions. The classifier is therefore modelled for any function \<open>np_argsort\<close>, its
  first parameter. \<open>stable_argsort\<close> is one such function, the one that keeps equal
  values in their original order; on an array of pairwise distinct values every sorting
  permutation is this one.
\<close>

definition stable_argsort :: "ndarray \<Rightarrow> nat list" where
  "stable_argsort a = map snd (sort_key fst (zip a [0..<length a]))"

text \<open>
  One iteration of the loop over the occupied bins. The indices \<open>np_argsort\<close> returns
  are positions of the bin's own sub-array, so the assignment of 0 through them stays in
  range.
\<close>

definition halo_type_bin_step ::
  "(ndarray \<Rightarrow> nat list) \<Rightarrow> ndarray \<Rightarrow> ndarray \<Rightarrow> int list \<Rightarrow> int \<Rightarrow> ndarray \<Rightarrow>
   py_error + ndarray" where
  "halo_type_bin_step np_argsort secondary_halo_property bin_splitting_fraction
       array_of_bin_indices bin_index_i halo_types =
     (let in_bin = map (\<lambda>b. b = bin_index_i) array_of_bin_indices
      in py_bind (bool_index secondary_halo_property in_bin)
           (\<lambda>secondary_property_of_halos_with_bin_index_i.
         py_bind (bool_index halo_types in_bin) (\<lambda>halo_types_with_bin_index_i.
           let array_of_indices_that_would_sort_bin_i =
                 np_argsort secondary_property_of_halos_with_bin_index_i
           in py_bind (py_getitem bin_splitting_fraction bin_index_i) (\<lambda>fraction.
                let bin_splitting_index =
                      py_round (real (length array_of_indices_that_would_sort_bin_i) * fraction);
                    halo_types_with_bin_index_i =
                      fold (\<lambda>j a. a[j := 0])
                        (py_slice_to array_of_indices_that_would_sort_bin_i bin_splitting_index)
                        halo_types_with_bin_index_i
                in Inr (mask_put halo_types in_bin halo_types_with_bin_index_i)))))"

fun halo_type_loop ::
  "(ndarray \<Rightarrow> nat list) \<Rightarrow> ndarray \<Rightarrow> ndarray \<Rightarrow> int list \<Rightarrow> int list \<Rightarrow> ndarray \<Rightarrow>
   py_error + ndarray" where
  "halo_type_loop np_argsort secondary_halo_property bin_splitting_fraction
       array_of_bin_indices [] halo_types = Inr halo_types"
| "halo_type_loop np_argsort secondary_halo_property bin_splitting_fraction
       array_of_bin_indices (bin_index_i # bin_indices) halo_types =
     py_bind (halo_type_bin_step np_argsort secondary_halo_property bin_splitting_fraction
                array_of_bin_indices bin_index_i halo_types)
       (halo_type_loop np_argsort secondary_halo_property bin_splitting_fraction
          array_of_bin_indices bin_indices)"

text \<open>
  \<open>halo_type_calculator(self, primary_halo_property, secondary_halo_property,
  halo_type_fraction_function, bin_spacing)\<close>. The module \<open>defaults\<close> is not part of the
  modelled file, so its constant \<open>default_bin_max_epsilon\<close> is a parameter (the second,
  after \<open>np_argsort\<close>); the
  default of \<open>bin_spacing\<close>, another constant of \<open>defaults\<close>, is left to the caller.
  \<open>min()\<close> of an empty array raises ValueError, as does a negative \<open>num\<close> in
  \<open>np.linspace\<close>; a zero \<open>bin_spacing\<close> makes the quotient infinite (or undefined
  when the numerator is zero too) and \<open>int(round(...))\<close> raise OverflowError
  (ValueError). The loop visits each occupied bin once; the bins' members are
  disjoint, so the order of the visits does not matter and the model takes the order of
  first occurrence.
\<close>

definition halo_type_calculator ::
  "(ndarray \<Rightarrow> nat list) \<Rightarrow> real \<Rightarrow> ndarray \<Rightarrow> ndarray \<Rightarrow> (real \<Rightarrow> real) \<Rightarrow> real \<Rightarrow>
   py_error + ndarray" where
  "halo_type_calculator np_argsort default_bin_max_epsilon primary_halo_property
       secondary_halo_property halo_type_fraction_function bin_spacing =
     (let halo_types = map (\<lambda>x. x + 1) (np_zeros (length primary_halo_property))
      in if primary_halo_property = [] then Inl ValueError
         else
           let minimum = Min (set primary_halo_property);
               maximum = Max (set primary_halo_property) + default_bin_max_epsilon
           in if bin_spacing = 0
              then Inl (if maximum - minimum = 0 then ValueError else OverflowError)
              else
                let Nbins = py_round ((maximum - minimum) / bin_spacing)
                in if Nbins < 0 then Inl ValueError
                   else
                     let primary_halo_property_bins = np_linspace minimum maximum (nat Nbins);
                         bin_midpoints =
                           map (\<lambda>(b, d). b + d / 2)
                             (zip (butlast primary_halo_property_bins)
                                  (np_diff primary_halo_property_bins));
                         bin_splitting_fraction =
                           map (\<lambda>(one, f1). one - f1)
                             (zip (map (\<lambda>x. x + 1) (np_zeros (length bin_midpoints)))
                                  (map halo_type_fraction_function bin_midpoints))
                     in py_bind (np_digitize primary_halo_property primary_halo_property_bins)
                          (\<lambda>digitized.
                            let array_of_bin_indices = map (\<lambda>d. d - 1) digitized
                            in halo_type_loop np_argsort secondary_halo_property
                                 bin_splitting_fraction
                                 array_of_bin_indices (remdups array_of_bin_indices)
                                 halo_types))"

section \<open>halo\_type\_calculator: the bins, their members and the split index\<close>

text \<open>
  Auxiliary notions used to state what the classifier computes: the bin edges and the bin
  index of every halo as the function computes them, the positions of the members of a
  bin in catalog order, the rank of a halo among the members of its bin, the secondary
  property of the members, the ranks the loop sets to type 0, and the split index
  \<open>round(n * (1 - f1))\<close> of a bin.
\<close>

definition bin_rank :: "int list \<Rightarrow> int \<Rightarrow> nat \<Rightarrow> nat" where
  "bin_rank array_of_bin_indices b j = length (filter (\<lambda>b'. b' = b) (take j array_of_bin_indices))"

definition bin_secondary :: "ndarray \<Rightarrow> int list \<Rightarrow> int \<Rightarrow> ndarray" where
  "bin_secondary secondary array_of_bin_indices b =
     map fst (filter snd (zip secondary (map (\<lambda>b'. b' = b) array_of_bin_indices)))"

definition bin_zero_ranks ::
  "(ndarray \<Rightarrow> nat list) \<Rightarrow> ndarray \<Rightarrow> ndarray \<Rightarrow> int list \<Rightarrow> int \<Rightarrow> nat set" where
  "bin_zero_ranks np_argsort secondary bin_splitting_fraction array_of_bin_indices b =
     (let order = np_argsort (bin_secondary secondary array_of_bin_indices b)
      in set (py_slice_to order
                (py_round (real (length order) * bin_splitting_fraction ! nat b))))"

definition bin_members :: "int list \<Rightarrow> int \<Rightarrow> nat list" where
  "bin_members array_of_bin_indices b =
     filter (\<lambda>j. array_of_bin_indices ! j = b) [0..<length array_of_bin_indices]"

definition calculator_bins :: "real \<Rightarrow> ndarray \<Rightarrow> real \<Rightarrow> ndarray" where
  "calculator_bins eps p bin_spacing =
     np_linspace (Min (set p)) (Max (set p) + eps)
       (nat (py_round ((Max (set p) + eps - Min (set p)) / bin_spacing)))"

definition calculator_bin_indices :: "real \<Rightarrow> ndarray \<Rightarrow> real \<Rightarrow> int list" where
  "calculator_bin_indices eps p bin_spacing =
     map (\<lambda>v. int (length (filter (\<lambda>e. e \<le> v) (calculator_bins eps p bin_spacing))) - 1) p"

definition calculator_split_index ::
  "real \<Rightarrow> ndarray \<Rightarrow> (real \<Rightarrow> real) \<Rightarrow> real \<Rightarrow> int \<Rightarrow> int" where
  "calculator_split_index eps p f bin_spacing b =
     py_round
       (real (length (bin_members (calculator_bin_indices eps p bin_spacing) b)) *
        (1 - f (calculator_bins eps p bin_spacing ! nat b +
                (calculator_bins eps p bin_spacing ! Suc (nat b) -
                 calculator_bins eps p bin_spacing ! nat b) / 2)))"

text \<open>
  What \<open>np.argsort\<close> guarantees: the result is a permutation of the positions of its
  argument, and reading the argument in that order gives an ascending sequence.
\<close>

definition is_argsort :: "(ndarray \<Rightarrow> nat list) \<Rightarrow> bool" where
  "is_argsort np_argsort =
     (\<forall>a. distinct (np_argsort a) \<and> set (np_argsort a) = {0..<length a} \<and>
          sorted (map (\<lambda>i. a ! i) (np_argsort a)))"

section \<open>The array primitives on mapped arrays\<close>

lemma mask_set_scalar_map:
  "mask_set_scalar (map f xs) (map g xs) c = map (\<lambda>x. if g x then c else f x) xs"
  by (induction xs) (simp_all add: mask_set_scalar_def)

lemma mask_set_map:
  "mask_set (map f xs) (map g xs) (map h xs) = map (\<lambda>x. if g x then h x else f x) xs"
  by (induction xs) (simp_all add: mask_set_def)

lemma zip_map_same: "zip (map f xs) (map g xs) = map (\<lambda>x. (f x, g x)) xs"
  by (induction xs) simp_all

lemma np_zeros_map: "np_zeros (length xs) = map (\<lambda>_. 0) xs"
  by (simp add: np_zeros_def map_replicate_const)

lemma np_where_all_ones: "np_where_eq (all_ones_of p) 0 = []"
  by (simp add: np_where_eq_def all_ones_of_def np_zeros_def)

lemma set_np_where_eq: "set (np_where_eq a v) = {i. i < length a \<and> a ! i = v}"
  by (auto simp: np_where_eq_def)

lemma fancy_get_map:
  "list_all (\<lambda>i. i < length xs) idx \<Longrightarrow> fancy_get (map f xs) idx = Inr (map (\<lambda>i. f (xs ! i)) idx)"
  by (simp add: fancy_get_def list_all_iff)

lemma fancy_get_id:
  "list_all (\<lambda>i. i < length xs) idx \<Longrightarrow> fancy_get xs idx = Inr (map (\<lambda>i. xs ! i) idx)"
  by (simp add: fancy_get_def)

lemma length_fold_update:
  "length (fold (\<lambda>(i, v) acc. acc[i := v]) zs a) = length a"
  by (induction zs arbitrary: a) (auto split: prod.splits)

lemma length_fancy_set: "length (fancy_set a idx vals) = length a"
  by (simp add: fancy_set_def length_fold_update)

lemma fancy_set_map_nth:
  "i < length a \<Longrightarrow> fancy_set a idx (map h idx) ! i = (if i \<in> set idx then h i else a ! i)"
proof (induction idx arbitrary: a)
  case Nil
  then show ?case by (simp add: fancy_set_def)
next
  case (Cons j idx)
  have "fancy_set a (j # idx) (map h (j # idx)) = fancy_set (a[j := h j]) idx (map h idx)"
    by (simp add: fancy_set_def)
  with Cons show ?case by (auto simp: nth_list_update)
qed

lemma halo_type_fraction_centrals_all_ones:
  "halo_type_fraction_centrals m p (all_ones_of p) = Inr (map (halo_type1_fraction_centrals m) p)"
  by (simp add: halo_type_fraction_centrals_def np_where_all_ones fancy_get_def fancy_set_def py_bind_def)

lemma halo_type_fraction_satellites_all_ones:
  "halo_type_fraction_satellites m p (all_ones_of p) = Inr (map (halo_type1_fraction_satellites m) p)"
  by (simp add: halo_type_fraction_satellites_def np_where_all_ones fancy_get_def fancy_set_def py_bind_def)

lemma maximum_destruction_centrals_all_ones:
  "maximum_destruction_centrals m p (all_ones_of p) =
     Inr (map (\<lambda>x. ceiling_centrals (halo_type1_fraction_centrals m x) (baseline_mean_ncen m x)) p)"
  by (simp add: maximum_destruction_centrals_def halo_type_fraction_centrals_all_ones py_bind_def
      np_zeros_map mask_set_map zip_map_same Let_def ceiling_centrals_def o_def cong: if_cong)

lemma maximum_destruction_satellites_all_ones:
  "maximum_destruction_satellites m p (all_ones_of p) =
     Inr (map (\<lambda>x. ceiling_satellites (halo_type1_fraction_satellites m x)) p)"
  by (simp add: maximum_destruction_satellites_def halo_type_fraction_satellites_all_ones py_bind_def
      np_zeros_map mask_set_map zip_map_same Let_def ceiling_satellites_def o_def)

lemma destruction_type0_branch_map:
  assumes "list_all (\<lambda>i. i < length p) idx0"
  shows "destruction_type0_branch (map d p) p (map f p) idx0 =
           Inr (fancy_set (map d p) idx0
                  (map (\<lambda>i. derived_type0 (d (p ! i)) (f (p ! i))) idx0))"
proof -
  have in_range: "\<And>i. i \<in> set idx0 \<Longrightarrow> i < length p"
    using assms by (simp add: list_all_iff)
  have "destruction_type0_branch (map d p) p (map f p) idx0 =
          Inr (fancy_set (map d p) idx0
                 (map (\<lambda>i. derived_type0 (map d p ! i) (map f p ! i)) idx0))"
    using assms
    by (simp add: destruction_type0_branch_def fancy_get_def py_bind_def Let_def
        mask_set_map mask_set_scalar_map zip_map_same o_def derived_type0_def cong: if_cong)
  moreover have "map (\<lambda>i. derived_type0 (map d p ! i) (map f p ! i)) idx0 =
                 map (\<lambda>i. derived_type0 (d (p ! i)) (f (p ! i))) idx0"
    by (rule map_cong) (simp_all add: in_range)
  ultimately show ?thesis by simp
qed

section \<open>Closed forms of the destruction functions: proofs\<close>

lemma np_where_in_range:
  "length ht = length p \<Longrightarrow> list_all (\<lambda>i. i < length p) (np_where_eq ht v)"
  by (simp add: list_all_iff set_np_where_eq)

lemma destruction_centrals_closed:
  assumes "length ht = length p"
  shows "destruction_centrals m p ht =
           Inr (fancy_set (map (type1_centrals m) p) (np_where_eq ht 0)
                  (map (\<lambda>i. derived_type0 (type1_centrals m (p ! i))
                              (halo_type1_fraction_centrals m (p ! i))) (np_where_eq ht 0)))"
proof -
  have "destruction_centrals m p ht =
          destruction_type0_branch (map (type1_centrals m) p) p
            (map (halo_type1_fraction_centrals m) p) (np_where_eq ht 0)"
    by (simp add: destruction_centrals_def maximum_destruction_centrals_all_ones
        halo_type_fraction_centrals_all_ones py_bind_def Let_def mask_set_scalar_map
        mask_set_map zip_map_same o_def type1_centrals_def [abs_def] clamped_type1_def cong: if_cong)
  then show ?thesis
    by (simp add: destruction_type0_branch_map np_where_in_range [OF assms])
qed

lemma destruction_satellites_closed:
  assumes "length ht = length p"
  shows "destruction_satellites m p ht =
           Inr (fancy_set (map (type1_satellites m) p) (np_where_eq ht 0)
                  (map (\<lambda>i. derived_type0 (type1_satellites m (p ! i))
                              (halo_type1_fraction_satellites m (p ! i))) (np_where_eq ht 0)))"
proof -
  have "destruction_satellites m p ht =
          destruction_type0_branch (map (type1_satellites m) p) p
            (map (halo_type1_fraction_satellites m) p) (np_where_eq ht 0)"
    by (simp add: destruction_satellites_def maximum_destruction_satellites_all_ones
        halo_type_fraction_satellites_all_ones py_bind_def Let_def mask_set_scalar_map
        mask_set_map zip_map_same o_def type1_satellites_def [abs_def] clamped_type1_def cong: if_cong)
  then show ?thesis
    by (simp add: destruction_type0_branch_map np_where_in_range [OF assms])
qed

lemma destruction_centrals_nth:
  assumes "length ht = length p" and "i < length p"
  shows "\<exists>out. destruction_centrals m p ht = Inr out \<and> length out = length p \<and>
           out ! i = (if ht ! i = 0
                      then derived_type0 (type1_centrals m (p ! i))
                             (halo_type1_fraction_centrals m (p ! i))
                      else type1_centrals m (p ! i))"
  using assms
  by (simp add: destruction_centrals_closed length_fancy_set fancy_set_map_nth set_np_where_eq)

lemma destruction_satellites_nth:
  assumes "length ht = length p" and "i < length p"
  shows "\<exists>out. destruction_satellites m p ht = Inr out \<and> length out = length p \<and>
           out ! i = (if ht ! i = 0
                      then derived_type0 (type1_satellites m (p ! i))
                             (halo_type1_fraction_satellites m (p ! i))
                      else type1_satellites m (p ! i))"
  using assms
  by (simp add: destruction_satellites_closed length_fancy_set fancy_set_map_nth set_np_where_eq)

lemma ceiling_centrals_nonneg: "0 \<le> ceiling_centrals f n"
  by (simp add: ceiling_centrals_def Let_def)

lemma ceiling_satellites_nonneg: "0 \<le> ceiling_satellites f"
  by (simp add: ceiling_satellites_def)

lemma clamped_type1_nonneg: "0 \<le> mx \<Longrightarrow> 0 \<le> clamped_type1 u mx f"
  by (simp add: clamped_type1_def Let_def)

lemma clamped_type1_le: "f \<noteq> 1 \<Longrightarrow> 0 \<le> mx \<Longrightarrow> clamped_type1 u mx f \<le> mx"
  by (simp add: clamped_type1_def Let_def)

lemma ceiling_centrals_le: "0 < f \<Longrightarrow> ceiling_centrals f n \<le> 1 / f"
  by (simp add: ceiling_centrals_def Let_def)

lemma conservation_scalar:
  assumes "f \<le> 1"
  shows "f * clamped_type1 u mx f + (1 - f) * derived_type0 (clamped_type1 u mx f) f = 1"
proof (cases "f = 1")
  case True
  then show ?thesis by (simp add: clamped_type1_def derived_type0_def)
next
  case False
  with assms have "1 - f > 0" by simp
  then show ?thesis by (simp add: derived_type0_def field_simps)
qed

lemma derived_type0_nonneg:
  assumes "0 \<le> f" "f \<le> 1" "0 \<le> d" "0 < f \<Longrightarrow> d \<le> 1 / f"
  shows "0 \<le> derived_type0 d f"
proof (cases "f = 1")
  case True
  then show ?thesis by (simp add: derived_type0_def)
next
  case False
  with assms have pos: "1 - f > 0" by simp
  have "d * f \<le> 1"
  proof (cases "f = 0")
    case True
    then show ?thesis by simp
  next
    case False
    with assms have "0 < f" by simp
    with assms(4) show ?thesis by (simp add: field_simps)
  qed
  with pos False show ?thesis by (simp add: derived_type0_def)
qed

lemma mask_set_nth:
  "i < length a \<Longrightarrow> length msk = length a \<Longrightarrow> length v = length a \<Longrightarrow>
   mask_set a msk v ! i = (if msk ! i then v ! i else a ! i)"
  by (simp add: mask_set_def)

lemma length_mask_set:
  "length msk = length a \<Longrightarrow> length v = length a \<Longrightarrow> length (mask_set a msk v) = length a"
  by (simp add: mask_set_def)

lemma halo_type_fraction_centrals_nth:
  assumes "length ht = length p" and "i < length p"
  shows "\<exists>htf. halo_type_fraction_centrals m p ht = Inr htf \<and> length htf = length p \<and>
           htf ! i = (if ht ! i = 0 then 1 - halo_type1_fraction_centrals m (p ! i)
                      else halo_type1_fraction_centrals m (p ! i))"
  using assms
  by (simp add: halo_type_fraction_centrals_def Let_def py_bind_def fancy_get_map
      np_where_in_range o_def length_fancy_set fancy_set_map_nth set_np_where_eq)

lemma maximum_destruction_centrals_nth:
  assumes "length ht = length p" and "i < length p"
  shows "\<exists>mx. maximum_destruction_centrals m p ht = Inr mx \<and> length mx = length p \<and>
           mx ! i = ceiling_centrals
                      (if ht ! i = 0 then 1 - halo_type1_fraction_centrals m (p ! i)
                       else halo_type1_fraction_centrals m (p ! i))
                      (baseline_mean_ncen m (p ! i))"
proof -
  from halo_type_fraction_centrals_nth [OF assms, of m]
  obtain htf where h: "halo_type_fraction_centrals m p ht = Inr htf" "length htf = length p"
    "htf ! i = (if ht ! i = 0 then 1 - halo_type1_fraction_centrals m (p ! i)
                else halo_type1_fraction_centrals m (p ! i))"
    by blast
  show ?thesis
    using assms(2) h(2)
    by (simp add: maximum_destruction_centrals_def h(1) py_bind_def Let_def mask_set_def
        np_zeros_def ceiling_centrals_def h(3) [symmetric])
qed

lemma type1_centrals_nonneg: "0 \<le> type1_centrals m x"
  by (simp add: type1_centrals_def clamped_type1_nonneg ceiling_centrals_nonneg)

lemma type1_satellites_nonneg: "0 \<le> type1_satellites m x"
  by (simp add: type1_satellites_def clamped_type1_nonneg ceiling_satellites_nonneg)

lemma clamped_type1_le_inverse:
  assumes "0 < f" and "0 \<le> mx" and "mx \<le> 1 / f"
  shows "clamped_type1 u mx f \<le> 1 / f"
proof (cases "f = 1")
  case True
  then show ?thesis by (simp add: clamped_type1_def)
next
  case False
  from clamped_type1_le [OF False assms(2), of u] assms(3) show ?thesis by simp
qed

lemma type0_centrals_nonneg:
  assumes "0 \<le> halo_type1_fraction_centrals m x" and "halo_type1_fraction_centrals m x \<le> 1"
  shows "0 \<le> derived_type0 (type1_centrals m x) (halo_type1_fraction_centrals m x)"
  using assms
  by (intro derived_type0_nonneg type1_centrals_nonneg)
     (simp_all add: type1_centrals_def clamped_type1_le_inverse ceiling_centrals_nonneg
        ceiling_centrals_le)

lemma type0_satellites_nonneg:
  assumes "0 \<le> halo_type1_fraction_satellites m x" and "halo_type1_fraction_satellites m x \<le> 1"
  shows "0 \<le> derived_type0 (type1_satellites m x) (halo_type1_fraction_satellites m x)"
  using assms
  by (intro derived_type0_nonneg type1_satellites_nonneg)
     (simp_all add: type1_satellites_def clamped_type1_le_inverse ceiling_satellites_nonneg
        ceiling_satellites_def)

lemma mean_ncen_nth:
  assumes "destruction_centrals m p ht = Inr d" and "length d = length p" and "i < length p"
  shows "\<exists>n. mean_ncen m p ht = Inr n \<and> n ! i = d ! i * baseline_mean_ncen m (p ! i)"
  using assms by (simp add: mean_ncen_def py_bind_def)

lemma mean_nsat_nth:
  assumes "destruction_satellites m p ht = Inr d" and "length d = length p" and "i < length p"
  shows "\<exists>n. mean_nsat m p ht = Inr n \<and> n ! i = d ! i * baseline_mean_nsat m (p ! i)"
  using assms by (simp add: mean_nsat_def py_bind_def)

section \<open>Zheng07\_HOD\_Model: the threshold table and key validation\<close>

lemma upt_0_9: "[0..<9] = [0, 1, 2, 3, 4, 5, 6, 7, 8 :: nat]"
  by code_simp

lemma threshold_array_eq: "threshold_array = published_thresholds"
  by (simp add: threshold_array_def published_thresholds_def np_arange_def upt_0_9)

lemma length_np_where_eq_distinct:
  assumes "distinct xs"
  shows "length (np_where_eq xs v) = (if v \<in> set xs then 1 else 0)"
proof -
  have "map (\<lambda>i. xs ! i) (filter (\<lambda>i. xs ! i = v) [0..<length xs]) =
        filter (\<lambda>x. x = v) (map (\<lambda>i. xs ! i) [0..<length xs])"
    by (simp add: filter_map o_def)
  then have "length (np_where_eq xs v) = length (filter (\<lambda>x. x = v) xs)"
    unfolding np_where_eq_def by (metis length_map map_nth)
  also have "\<dots> = count_list xs v"
    by (induction xs) auto
  also have "\<dots> = (if v \<in> set xs then 1 else 0)"
    using assms by (induction xs) auto
  finally show ?thesis .
qed

lemma distinct_published_thresholds: "distinct published_thresholds"
  by (simp add: published_thresholds_def)

lemma np_where_eq_published:
  "length (np_where_eq threshold_array x) = Suc 0 \<longleftrightarrow> x \<in> set published_thresholds"
  by (simp add: threshold_array_eq length_np_where_eq_distinct distinct_published_thresholds)

lemma published_parameters_PyStr: "published_parameters self (PyStr s) = Inl TypeError"
  by (simp add: published_parameters_def py_bind_def)

lemma published_parameters_PyFloat:
  "published_parameters self (PyFloat x) =
     (if x \<in> set published_thresholds
      then Inr ([(''logMmin_cen'', logMmin_cen_array ! (np_where_eq threshold_array x ! 0)),
                 (''sigma_logM'', sigma_logM_array ! (np_where_eq threshold_array x ! 0)),
                 (''logM0_sat'', logM0_array ! (np_where_eq threshold_array x ! 0)),
                 (''logM1_sat'', logM1_array ! (np_where_eq threshold_array x ! 0)),
                 (''alpha_sat'', alpha_sat_array ! (np_where_eq threshold_array x ! 0)),
                 (''fconc'', 1)], self\<lparr> threshold := Some x \<rparr>)
      else Inl TypeError)"
  by (simp add: published_parameters_def py_bind_def Let_def np_where_eq_published)

lemma published_parameters_PyInt:
  "published_parameters self (PyInt n) = published_parameters self (PyFloat (real_of_int n))"
  by (simp add: published_parameters_def py_bind_def)

lemma published_parameters_PyNone:
  "published_parameters self PyNone =
     published_parameters
       (self\<lparr> warnings_issued :=
                 warnings_issued self @ [''HOD threshold unspecified: setting to -19.5''] \<rparr>)
       (PyFloat (- 19.5))"
  by (simp add: published_parameters_def py_bind_def)

lemma np_where_eq_minus_19_5: "np_where_eq threshold_array (- (39 / 2)) = [3]"
  by (simp add: threshold_array_eq published_thresholds_def np_where_eq_def upt_0_9)

lemma np_where_eq_minus_20: "np_where_eq threshold_array (- 20) = [4]"
  by (simp add: threshold_array_eq published_thresholds_def np_where_eq_def upt_0_9)

lemma published_parameters_keys:
  "published_parameters self t = Inr (d, self') \<Longrightarrow> set (map fst d) = zheng07_keys"
  by (cases t)
     (auto simp: published_parameters_PyNone published_parameters_PyInt published_parameters_PyStr
        published_parameters_PyFloat zheng07_keys_def split: if_splits)

lemma published_parameters_minus_20:
  "\<exists>d. published_parameters self (PyInt (- 20)) = Inr (d, self\<lparr> threshold := Some (- 20) \<rparr>) \<and>
       set (map fst d) = zheng07_keys"
  by (simp add: published_parameters_PyInt published_parameters_PyFloat published_thresholds_def
      zheng07_keys_def)

lemma require_correct_keys_closed:
  "require_correct_keys self =
     (case parameter_dict self of
        None \<Rightarrow> Inl AttributeError
      | Some d \<Rightarrow> if set (map fst d) \<noteq> zheng07_keys then Inl TypeError
                  else Inr (self\<lparr> threshold := Some (- 20) \<rparr>))"
proof -
  from published_parameters_minus_20 [of self]
  obtain d where d: "published_parameters self (PyInt (- 20)) = Inr (d, self\<lparr> threshold := Some (- 20) \<rparr>)"
    "set (map fst d) = zheng07_keys" by blast
  then show ?thesis
    by (auto simp add: require_correct_keys_def py_bind_def Let_def split: option.splits)
qed

lemma published_parameters_any_instance:
  assumes "t = PyNone \<or> is_published t"
  shows "\<exists>d. \<forall>self0. \<exists>self'. published_parameters self0 t = Inr (d, self')"
proof (cases t)
  case PyNone
  then show ?thesis
    by (simp add: published_parameters_PyNone published_parameters_PyFloat
        published_thresholds_def)
next
  case (PyInt n)
  with assms show ?thesis
    by (simp add: published_parameters_PyInt published_parameters_PyFloat is_published_def)
next
  case (PyFloat x)
  with assms show ?thesis
    by (simp add: published_parameters_PyFloat is_published_def)
next
  case (PyStr s)
  with assms show ?thesis by (simp add: is_published_def)
qed

section \<open>halo\_type\_calculator: rounding the number of bin edges\<close>

lemma py_round_one: "1 / 2 \<le> x \<Longrightarrow> x < 3 / 2 \<Longrightarrow> py_round x = 1"
  unfolding py_round_def by (simp add: floor_eq_iff)

lemma py_round_zero: "0 \<le> x \<Longrightarrow> x < 1 / 2 \<Longrightarrow> py_round x = 0"
  unfolding py_round_def by (simp add: floor_eq_iff)

section \<open>halo\_type\_calculator: masks, ranks, argsort and the loop\<close>

lemma length_bool_sub:
  "length a = length msk \<Longrightarrow>
   length (map fst (filter snd (zip a msk))) = length (filter (\<lambda>x. x) msk)"
  by (induction a msk rule: list_induct2) simp_all

lemma rank_less:
  "j < length msk \<Longrightarrow> msk ! j \<Longrightarrow>
   length (filter (\<lambda>x. x) (take j msk)) < length (filter (\<lambda>x. x) msk)"
proof (induction msk arbitrary: j)
  case Nil
  then show ?case by simp
next
  case (Cons b msk)
  then show ?case by (cases j) auto
qed

lemma bool_sub_nth:
  "length a = length msk \<Longrightarrow> j < length a \<Longrightarrow> msk ! j \<Longrightarrow>
   map fst (filter snd (zip a msk)) ! length (filter (\<lambda>x. x) (take j msk)) = a ! j"
proof (induction a msk arbitrary: j rule: list_induct2)
  case Nil
  then show ?case by simp
next
  case (Cons x a b msk)
  then show ?case by (cases j) auto
qed

lemma length_mask_put: "length (mask_put a msk vals) = length a"
  by (induction a msk vals rule: mask_put.induct) simp_all

lemma mask_put_nth:
  "length a = length msk \<Longrightarrow> length vals = length (filter (\<lambda>x. x) msk) \<Longrightarrow> j < length a \<Longrightarrow>
   mask_put a msk vals ! j =
     (if msk ! j then vals ! length (filter (\<lambda>x. x) (take j msk)) else a ! j)"
proof (induction a msk vals arbitrary: j rule: mask_put.induct)
  case (3 x xs msk vals)
  then show ?case by (cases j) auto
next
  case (5 x xs msk v vals)
  then show ?case by (cases j) auto
qed simp_all

lemma length_fold_zero: "length (fold (\<lambda>j a. a[j := 0::real]) js v) = length v"
  by (induction js arbitrary: v) simp_all

lemma fold_zero_nth:
  "r < length v \<Longrightarrow> fold (\<lambda>j a. a[j := 0::real]) js v ! r = (if r \<in> set js then 0 else v ! r)"
proof (induction js arbitrary: v)
  case Nil
  then show ?case by simp
next
  case (Cons j js)
  then show ?case by (auto simp: nth_list_update)
qed

lemma filter_eq_map_mask:
  "filter (\<lambda>x. x) (map (\<lambda>b'. b' = b) xs) = map (\<lambda>b'. b' = b) (filter (\<lambda>b'. b' = b) xs)"
  by (induction xs) simp_all

lemma rank_mask:
  "length (filter (\<lambda>x. x) (take j (map (\<lambda>b'. b' = b) idx))) = bin_rank idx b j"
  by (simp add: bin_rank_def take_map filter_map o_def)

lemma halo_type_bin_step_nth:
  assumes ls: "length s = length idx" and lh: "length ht = length idx"
    and b: "0 \<le> b" "b < int (length bsf)"
  shows "\<exists>ht'. halo_type_bin_step argsort s bsf idx b ht = Inr ht' \<and> length ht' = length idx \<and>
           (\<forall>j<length idx. ht' ! j =
              (if idx ! j = b \<and> bin_rank idx b j \<in> bin_zero_ranks argsort s bsf idx b then 0
               else ht ! j))"
proof -
  define msk where "msk = map (\<lambda>b'. b' = b) idx"
  define types_i where "types_i = map fst (filter snd (zip ht msk))"
  define order where "order = argsort (bin_secondary s idx b)"
  define js where "js = py_slice_to order (py_round (real (length order) * bsf ! nat b))"
  define vals where "vals = fold (\<lambda>j a. a[j := 0::real]) js types_i"
  have lm: "length msk = length idx" by (simp add: msk_def)
  have zr: "bin_zero_ranks argsort s bsf idx b = set js"
    by (simp add: bin_zero_ranks_def Let_def js_def order_def)
  have step: "halo_type_bin_step argsort s bsf idx b ht = Inr (mask_put ht msk vals)"
    using ls lh b
    by (simp add: halo_type_bin_step_def Let_def bool_index_def py_bind_def py_getitem_def
        msk_def types_i_def bin_secondary_def order_def js_def vals_def)
  have lt: "length types_i = length (filter (\<lambda>x. x) msk)"
    unfolding types_i_def by (rule length_bool_sub) (simp add: lh lm)
  have lv: "length vals = length (filter (\<lambda>x. x) msk)"
    by (simp add: vals_def length_fold_zero lt)
  have "mask_put ht msk vals ! j =
          (if idx ! j = b \<and> bin_rank idx b j \<in> set js then 0 else ht ! j)"
    if j: "j < length idx" for j
  proof (cases "idx ! j = b")
    case False
    with j have "\<not> msk ! j" by (simp add: msk_def)
    with mask_put_nth [of ht msk vals j] lh lm lv j False show ?thesis by simp
  next
    case True
    with j have mj: "msk ! j" by (simp add: msk_def)
    have r: "length (filter (\<lambda>x. x) (take j msk)) = bin_rank idx b j"
      unfolding msk_def by (rule rank_mask)
    from rank_less [of j msk] mj j lm have rl: "bin_rank idx b j < length types_i"
      by (simp add: r lt)
    from bool_sub_nth [of ht msk j] lh lm j mj have tj: "types_i ! bin_rank idx b j = ht ! j"
      by (simp add: types_i_def r)
    from mask_put_nth [of ht msk vals j] lh lm lv j mj
    have "mask_put ht msk vals ! j = vals ! bin_rank idx b j" by (simp add: r)
    also have "\<dots> = (if bin_rank idx b j \<in> set js then 0 else types_i ! bin_rank idx b j)"
      unfolding vals_def by (rule fold_zero_nth [OF rl])
    finally show ?thesis using True tj by simp
  qed
  with step lh show ?thesis by (simp add: length_mask_put zr)
qed

lemma halo_type_loop_nth:
  assumes ls: "length s = length idx" and lh: "length ht = length idx"
    and b: "\<forall>b\<in>set bs. 0 \<le> b \<and> b < int (length bsf)"
  shows "\<exists>ht'. halo_type_loop argsort s bsf idx bs ht = Inr ht' \<and> length ht' = length idx \<and>
           (\<forall>j<length idx. ht' ! j =
              (if idx ! j \<in> set bs \<and> bin_rank idx (idx ! j) j \<in> bin_zero_ranks argsort s bsf idx (idx ! j)
               then 0 else ht ! j))"
  using lh b
proof (induction bs arbitrary: ht)
  case Nil
  then show ?case by simp
next
  case (Cons b bs)
  from Cons.prems(2) have bb: "0 \<le> b" "b < int (length bsf)" by simp_all
  from halo_type_bin_step_nth [OF ls Cons.prems(1) bb]
  obtain ht1 where s1: "halo_type_bin_step argsort s bsf idx b ht = Inr ht1" "length ht1 = length idx"
    and n1: "\<forall>j<length idx. ht1 ! j =
              (if idx ! j = b \<and> bin_rank idx b j \<in> bin_zero_ranks argsort s bsf idx b then 0 else ht ! j)"
    by blast
  from Cons.prems(2) have rest: "\<forall>b\<in>set bs. 0 \<le> b \<and> b < int (length bsf)" by simp
  from Cons.IH [OF s1(2) rest]
  obtain ht2 where s2: "halo_type_loop argsort s bsf idx bs ht1 = Inr ht2" "length ht2 = length idx"
    and n2: "\<forall>j<length idx. ht2 ! j =
              (if idx ! j \<in> set bs \<and> bin_rank idx (idx ! j) j \<in> bin_zero_ranks argsort s bsf idx (idx ! j)
               then 0 else ht1 ! j)"
    by blast
  have "halo_type_loop argsort s bsf idx (b # bs) ht = Inr ht2"
    by (simp add: s1(1) s2(1) py_bind_def)
  moreover have "ht2 ! j =
      (if idx ! j \<in> set (b # bs) \<and> bin_rank idx (idx ! j) j \<in> bin_zero_ranks argsort s bsf idx (idx ! j)
       then 0 else ht ! j)" if "j < length idx" for j
    using n1 [rule_format, OF that] n2 [rule_format, OF that] by auto
  ultimately show ?case using s2(2) by simp
qed

lemma bin_members_nth:
  assumes "q < length (bin_members idx b)"
  shows "bin_members idx b ! q < length idx" and "idx ! (bin_members idx b ! q) = b"
proof -
  from assms have "bin_members idx b ! q \<in> set (bin_members idx b)" by simp
  then show "bin_members idx b ! q < length idx" and "idx ! (bin_members idx b ! q) = b"
    by (simp_all add: bin_members_def)
qed

lemma bin_rank_upt:
  "j \<le> length idx \<Longrightarrow> bin_rank idx b j = length (filter (\<lambda>i. idx ! i = b) [0..<j])"
proof -
  assume j: "j \<le> length idx"
  have "take j idx = map (\<lambda>i. idx ! i) [0..<j]"
    using j by (intro nth_equalityI) simp_all
  then show ?thesis
    by (simp add: bin_rank_def filter_map o_def)
qed

lemma bin_rank_members:
  assumes q: "q < length (bin_members idx b)"
  shows "bin_rank idx b (bin_members idx b ! q) = q"
proof -
  define j where "j = bin_members idx b ! q"
  from bin_members_nth [OF q] have jn: "j < length idx" and jb: "idx ! j = b"
    by (simp_all add: j_def)
  define A where "A = filter (\<lambda>i. idx ! i = b) [0..<j]"
  have "[0..<j + (length idx - j)] = [0..<j] @ [j..<j + (length idx - j)]"
    by (rule upt_add_eq_append) simp
  then have split: "[0..<length idx] = [0..<j] @ j # [Suc j..<length idx]"
    using jn by (simp add: upt_conv_Cons)
  have mem: "bin_members idx b = A @ j # filter (\<lambda>i. idx ! i = b) [Suc j..<length idx]"
    unfolding bin_members_def A_def by (subst split) (simp add: jb)
  then have "bin_members idx b ! length A = j" by simp
  moreover have "length A < length (bin_members idx b)" using mem by simp
  moreover have "distinct (bin_members idx b)" by (simp add: bin_members_def)
  ultimately have qa: "length A = q"
    using q by (simp add: j_def nth_eq_iff_index_eq)
  have "bin_rank idx b j = length A"
    using bin_rank_upt [of j idx b] jn by (simp add: A_def)
  then show ?thesis
    unfolding j_def [symmetric] by (simp only: qa)
qed

lemma length_bin_secondary:
  "length s = length idx \<Longrightarrow> length (bin_secondary s idx b) = length (bin_members idx b)"
proof -
  assume ls: "length s = length idx"
  have "length (bin_secondary s idx b) = length (filter (\<lambda>x. x) (map (\<lambda>b'. b' = b) idx))"
    unfolding bin_secondary_def by (rule length_bool_sub) (simp add: ls)
  also have "\<dots> = bin_rank idx b (length idx)"
    using rank_mask [of "length idx" b idx] by simp
  also have "\<dots> = length (bin_members idx b)"
    by (simp add: bin_rank_upt bin_members_def)
  finally show ?thesis .
qed

lemma bin_secondary_eq:
  assumes ls: "length s = length idx"
  shows "bin_secondary s idx b = map (\<lambda>j. s ! j) (bin_members idx b)"
proof (rule nth_equalityI)
  show "length (bin_secondary s idx b) = length (map (\<lambda>j. s ! j) (bin_members idx b))"
    by (simp add: length_bin_secondary [OF ls])
next
  fix q assume "q < length (bin_secondary s idx b)"
  then have q: "q < length (bin_members idx b)" by (simp add: length_bin_secondary [OF ls])
  define j where "j = bin_members idx b ! q"
  from bin_members_nth [OF q] have jn: "j < length idx" and jb: "idx ! j = b"
    by (simp_all add: j_def)
  have "map fst (filter snd (zip s (map (\<lambda>b'. b' = b) idx))) !
          length (filter (\<lambda>x. x) (take j (map (\<lambda>b'. b' = b) idx))) = s ! j"
    by (rule bool_sub_nth) (simp_all add: ls jn jb)
  then have "bin_secondary s idx b ! bin_rank idx b j = s ! j"
    by (simp add: bin_secondary_def rank_mask)
  with bin_rank_members [OF q] q show "bin_secondary s idx b ! q = map (\<lambda>j. s ! j) (bin_members idx b) ! q"
    by (simp add: j_def)
qed

lemma set_stable_argsort: "set (stable_argsort a) = {0..<length a}"
proof -
  have m: "map snd (zip a [0..<length a]) = [0..<length a]"
    by (rule map_snd_zip) simp
  have "set (stable_argsort a) = set (map snd (zip a [0..<length a]))"
    unfolding stable_argsort_def by (simp only: set_map set_sort)
  then show ?thesis by (simp only: m set_upt)
qed

lemma distinct_stable_argsort: "distinct (stable_argsort a)"
proof -
  have m: "map snd (zip a [0..<length a]) = [0..<length a]"
    by (rule map_snd_zip) simp
  have "distinct (map snd (zip a [0..<length a]))"
    by (simp only: m distinct_upt)
  then have "distinct (zip a [0..<length a])" and "inj_on snd (set (zip a [0..<length a]))"
    by (simp_all only: distinct_map)
  then show ?thesis
    unfolding stable_argsort_def by (simp only: distinct_map distinct_sort set_sort simp_thms)
qed

lemma sorted_stable_argsort: "sorted (map (\<lambda>i. a ! i) (stable_argsort a))"
proof -
  have "\<forall>z\<in>set (sort_key fst (zip a [0..<length a])). a ! snd z = fst z"
    by (auto simp: set_zip)
  then have "map (\<lambda>i. a ! i) (stable_argsort a) = map fst (sort_key fst (zip a [0..<length a]))"
    by (simp add: stable_argsort_def)
  then show ?thesis by (simp add: sorted_sort_key)
qed

lemma is_argsort_stable_argsort: "is_argsort stable_argsort"
  unfolding is_argsort_def
  by (intro allI conjI distinct_stable_argsort set_stable_argsort sorted_stable_argsort)

lemma is_argsort_length:
  assumes "is_argsort argsort"
  shows "length (argsort a) = length a"
proof -
  from assms have d: "distinct (argsort a)" and s: "set (argsort a) = {0..<length a}"
    by (simp_all add: is_argsort_def)
  from d have "length (argsort a) = card (set (argsort a))"
    by (simp add: distinct_card)
  with s show ?thesis by simp
qed

lemma is_argsort_take_iff:
  assumes ar: "is_argsort argsort" and r: "r < length a"
  shows "argsort a ! r \<in> set (take k (argsort a)) \<longleftrightarrow> r < k"
proof
  from ar have d: "distinct (argsort a)" by (simp add: is_argsort_def)
  assume "argsort a ! r \<in> set (take k (argsort a))"
  then obtain r' where r': "r' < length (take k (argsort a))"
    "take k (argsort a) ! r' = argsort a ! r"
    by (auto simp: in_set_conv_nth)
  then have "r' < k" "r' < length (argsort a)" "argsort a ! r' = argsort a ! r" by simp_all
  with d r have "r' = r"
    by (simp add: nth_eq_iff_index_eq is_argsort_length [OF ar])
  with \<open>r' < k\<close> show "r < k" by simp
next
  assume "r < k"
  with r have "r < length (take k (argsort a))" by (simp add: is_argsort_length [OF ar])
  then have "take k (argsort a) ! r \<in> set (take k (argsort a))" by (rule nth_mem)
  with \<open>r < k\<close> show "argsort a ! r \<in> set (take k (argsort a))" by simp
qed

lemma length_np_linspace: "length (np_linspace a c n) = n"
  by (simp add: np_linspace_def)

lemma np_linspace_nth:
  "2 \<le> n \<Longrightarrow> i < n \<Longrightarrow> np_linspace a c n ! i = a + real i * ((c - a) / real (n - 1))"
  by (simp add: np_linspace_def)

lemma np_linspace_last: "2 \<le> n \<Longrightarrow> np_linspace a c n ! (n - 1) = c"
  by (simp add: np_linspace_nth)

lemma sorted_np_linspace:
  assumes "2 \<le> n" and "a \<le> c"
  shows "sorted (np_linspace a c n)"
proof -
  have step: "0 \<le> (c - a) / real (n - 1)" using assms by simp
  have "np_linspace a c n ! i \<le> np_linspace a c n ! j" if "i \<le> j" "j < n" for i j
  proof -
    from that have "real i * ((c - a) / real (n - 1)) \<le> real j * ((c - a) / real (n - 1))"
      by (intro mult_right_mono step) simp
    with that assms(1) show ?thesis by (simp add: np_linspace_nth)
  qed
  then show ?thesis
    by (simp add: sorted_iff_nth_mono length_np_linspace)
qed

lemma digitize_count_range:
  fixes bins :: "real list"
  assumes n: "2 \<le> length bins" and lo: "bins ! 0 \<le> x" and hi: "x < bins ! (length bins - 1)"
  shows "1 \<le> length (filter (\<lambda>e. e \<le> x) bins)"
    and "length (filter (\<lambda>e. e \<le> x) bins) \<le> length bins - 1"
proof -
  from n have pos: "0 < length bins" by linarith
  then have "bins ! 0 \<in> set bins" by (rule nth_mem)
  with lo have "bins ! 0 \<in> set (filter (\<lambda>e. e \<le> x) bins)" by simp
  then have "0 < length (filter (\<lambda>e. e \<le> x) bins)" by (rule length_pos_if_in_set)
  then show "1 \<le> length (filter (\<lambda>e. e \<le> x) bins)" by linarith
  from pos have "length bins - 1 < length bins" by linarith
  then have "bins ! (length bins - 1) \<in> set bins" by (rule nth_mem)
  moreover from hi have "\<not> bins ! (length bins - 1) \<le> x" by simp
  ultimately have "length (filter (\<lambda>e. e \<le> x) bins) < length bins"
    by (rule length_filter_less)
  then show "length (filter (\<lambda>e. e \<le> x) bins) \<le> length bins - 1" by simp
qed

lemma py_round_bounds:
  assumes "0 \<le> x" and "x \<le> real n"
  shows "0 \<le> py_round x" and "py_round x \<le> int n"
proof -
  from assms(1) have r: "py_round x = \<lfloor>x + 1 / 2\<rfloor>" by (simp add: py_round_def)
  from assms(1) show "0 \<le> py_round x" by (simp add: r)
  from assms(2) have "x + 1 / 2 < real_of_int (int n + 1)" by simp
  then have "\<lfloor>x + 1 / 2\<rfloor> < int n + 1" by (simp only: floor_less_iff)
  then show "py_round x \<le> int n" by (simp add: r)
qed

lemma calculator_bins_facts:
  assumes ne: "p \<noteq> []" and eps: "0 < eps"
    and nb: "2 \<le> py_round ((Max (set p) + eps - Min (set p)) / bin_spacing)"
  shows "2 \<le> length (calculator_bins eps p bin_spacing)"
    and "sorted (calculator_bins eps p bin_spacing)"
    and "\<forall>b\<in>set (calculator_bin_indices eps p bin_spacing).
           0 \<le> b \<and> b < int (length (calculator_bins eps p bin_spacing) - 1)"
proof -
  let ?n = "nat (py_round ((Max (set p) + eps - Min (set p)) / bin_spacing))"
  let ?bins = "calculator_bins eps p bin_spacing"
  from nb have n2: "2 \<le> ?n" by simp
  then show l2: "2 \<le> length ?bins"
    by (simp add: calculator_bins_def length_np_linspace)
  from ne have "Min (set p) \<le> Max (set p)" by simp
  with eps have le: "Min (set p) \<le> Max (set p) + eps" by simp
  show "sorted ?bins"
    unfolding calculator_bins_def by (rule sorted_np_linspace [OF n2 le])
  have b0: "?bins ! 0 = Min (set p)"
    using n2 by (simp add: calculator_bins_def np_linspace_nth)
  have bl: "?bins ! (length ?bins - 1) = Max (set p) + eps"
    unfolding calculator_bins_def length_np_linspace by (rule np_linspace_last [OF n2])
  show "\<forall>b\<in>set (calculator_bin_indices eps p bin_spacing). 0 \<le> b \<and> b < int (length ?bins - 1)"
  proof
    fix b assume "b \<in> set (calculator_bin_indices eps p bin_spacing)"
    then obtain x where x: "x \<in> set p"
      and b: "b = int (length (filter (\<lambda>e. e \<le> x) ?bins)) - 1"
      by (auto simp: calculator_bin_indices_def)
    from x have mm: "Min (set p) \<le> x" "x \<le> Max (set p)" by simp_all
    from mm(1) have lo: "?bins ! 0 \<le> x" by (simp only: b0)
    from mm(2) eps have "x < Max (set p) + eps" by linarith
    then have hi: "x < ?bins ! (length ?bins - 1)" by (simp only: bl)
    from digitize_count_range [OF l2 lo hi] l2 show "0 \<le> b \<and> b < int (length ?bins - 1)"
      unfolding b by linarith
  qed
qed

lemma halo_type_calculator_unfold:
  assumes ne: "p \<noteq> []" and eps: "0 < eps" and bs: "0 < bin_spacing"
    and nb: "2 \<le> py_round ((Max (set p) + eps - Min (set p)) / bin_spacing)"
  shows "halo_type_calculator argsort eps p s f bin_spacing =
           halo_type_loop argsort s
             (map (\<lambda>i. 1 - f (calculator_bins eps p bin_spacing ! i +
                                (calculator_bins eps p bin_spacing ! Suc i -
                                 calculator_bins eps p bin_spacing ! i) / 2))
                [0..<length (calculator_bins eps p bin_spacing) - 1])
             (calculator_bin_indices eps p bin_spacing)
             (remdups (calculator_bin_indices eps p bin_spacing))
             (replicate (length p) 1)"
proof -
  let ?bins = "calculator_bins eps p bin_spacing"
  from calculator_bins_facts [OF ne eps nb]
  have l2: "2 \<le> length ?bins" and so: "sorted ?bins" by simp_all
  have mid: "map (\<lambda>(b, d). b + d / 2) (zip (butlast ?bins) (np_diff ?bins)) =
             map (\<lambda>i. ?bins ! i + (?bins ! Suc i - ?bins ! i) / 2) [0..<length ?bins - 1]"
    by (rule nth_equalityI) (simp_all add: np_diff_def nth_butlast)
  have bsf: "map (\<lambda>(one, f1). one - f1)
               (zip (map (\<lambda>x. x + 1) (np_zeros (length ?bins - Suc 0)))
                    (map (\<lambda>i. f (?bins ! i + (?bins ! Suc i - ?bins ! i) / 2))
                       [0..<length ?bins - Suc 0])) =
             map (\<lambda>i. 1 - f (?bins ! i + (?bins ! Suc i - ?bins ! i) / 2))
               [0..<length ?bins - Suc 0]"
    by (rule nth_equalityI) (simp_all add: np_zeros_def)
  have dig: "np_digitize p ?bins =
               Inr (map (\<lambda>v. int (length (filter (\<lambda>e. e \<le> v) ?bins))) p)"
    using so by (simp add: np_digitize_def)
  have ones: "map (\<lambda>x. x + 1) (np_zeros (length p)) = replicate (length p) 1"
    by (simp add: np_zeros_def)
  show ?thesis
    using ne bs nb
    unfolding halo_type_calculator_def Let_def calculator_bins_def [symmetric]
    by (simp add: mid bsf dig ones py_bind_def calculator_bin_indices_def o_def)
qed

section \<open>The destruction engine: conservation, override, non-negativity, ceiling\<close>

text \<open>
  Claim C1 (conservation law). Take any model (baseline occupations, type-1 fraction
  functions, unconstrained destruction functions), any primary-property array \<open>p\<close> and any
  element \<open>i\<close> of it at which both type-1 fractions lie in [0, 1]. Let \<open>c1\<close>, \<open>s1\<close> be what
  \<open>destruction_centrals\<close> and \<open>destruction_satellites\<close> return under a labelling that gives
  element \<open>i\<close> type 1, and \<open>c0\<close>, \<open>s0\<close> what they return under a labelling that gives it
  type 0. Then all four calls return, and at element \<open>i\<close>
  \<open>F1 * D(type 1) * N + (1 - F1) * D(type 0) * N = N\<close> holds exactly, for centrals with the
  baseline central occupation and for satellites with the baseline satellite occupation.
  The boundary values \<open>F1 = 0\<close>, \<open>F1 = 1\<close> and \<open>N = 0\<close> are included. The same holds for
  the type-conditioned mean occupations returned by \<open>mean_ncen\<close> and \<open>mean_nsat\<close>:
  \<open>F1 * N(type 1) + (1 - F1) * N(type 0) = N\<close>.
\<close>

theorem conservation_law:
  assumes len1: "length halo_type1 = length p" and len0: "length halo_type0 = length p"
    and i: "i < length p"
    and lab1: "halo_type1 ! i = 1" and lab0: "halo_type0 ! i = 0"
    and cen: "0 \<le> halo_type1_fraction_centrals m (p ! i)" "halo_type1_fraction_centrals m (p ! i) \<le> 1"
    and sat: "0 \<le> halo_type1_fraction_satellites m (p ! i)" "halo_type1_fraction_satellites m (p ! i) \<le> 1"
  shows "\<exists>c1 c0 s1 s0 nc1 nc0 ns1 ns0.
           destruction_centrals m p halo_type1 = Inr c1 \<and>
           destruction_centrals m p halo_type0 = Inr c0 \<and>
           destruction_satellites m p halo_type1 = Inr s1 \<and>
           destruction_satellites m p halo_type0 = Inr s0 \<and>
           halo_type1_fraction_centrals m (p ! i) * c1 ! i * baseline_mean_ncen m (p ! i) +
             (1 - halo_type1_fraction_centrals m (p ! i)) * c0 ! i * baseline_mean_ncen m (p ! i) =
             baseline_mean_ncen m (p ! i) \<and>
           halo_type1_fraction_satellites m (p ! i) * s1 ! i * baseline_mean_nsat m (p ! i) +
             (1 - halo_type1_fraction_satellites m (p ! i)) * s0 ! i * baseline_mean_nsat m (p ! i) =
             baseline_mean_nsat m (p ! i) \<and>
           mean_ncen m p halo_type1 = Inr nc1 \<and> mean_ncen m p halo_type0 = Inr nc0 \<and>
           mean_nsat m p halo_type1 = Inr ns1 \<and> mean_nsat m p halo_type0 = Inr ns0 \<and>
           halo_type1_fraction_centrals m (p ! i) * nc1 ! i +
             (1 - halo_type1_fraction_centrals m (p ! i)) * nc0 ! i =
             baseline_mean_ncen m (p ! i) \<and>
           halo_type1_fraction_satellites m (p ! i) * ns1 ! i +
             (1 - halo_type1_fraction_satellites m (p ! i)) * ns0 ! i =
             baseline_mean_nsat m (p ! i)"
proof -
  let ?fc = "halo_type1_fraction_centrals m (p ! i)"
  let ?fs = "halo_type1_fraction_satellites m (p ! i)"
  let ?nc = "baseline_mean_ncen m (p ! i)"
  let ?ns = "baseline_mean_nsat m (p ! i)"
  from destruction_centrals_nth [OF len1 i, of m] lab1
  obtain c1 where c1: "destruction_centrals m p halo_type1 = Inr c1" "length c1 = length p"
    "c1 ! i = type1_centrals m (p ! i)" by auto
  from destruction_centrals_nth [OF len0 i, of m] lab0
  obtain c0 where c0: "destruction_centrals m p halo_type0 = Inr c0" "length c0 = length p"
    "c0 ! i = derived_type0 (type1_centrals m (p ! i)) ?fc" by auto
  from destruction_satellites_nth [OF len1 i, of m] lab1
  obtain s1 where s1: "destruction_satellites m p halo_type1 = Inr s1" "length s1 = length p"
    "s1 ! i = type1_satellites m (p ! i)" by auto
  from destruction_satellites_nth [OF len0 i, of m] lab0
  obtain s0 where s0: "destruction_satellites m p halo_type0 = Inr s0" "length s0 = length p"
    "s0 ! i = derived_type0 (type1_satellites m (p ! i)) ?fs" by auto
  have "?fc * c1 ! i + (1 - ?fc) * c0 ! i = 1"
    unfolding c1(3) c0(3) type1_centrals_def by (rule conservation_scalar) (rule cen(2))
  then have "(?fc * c1 ! i + (1 - ?fc) * c0 ! i) * ?nc = ?nc" by simp
  then have ec: "?fc * c1 ! i * ?nc + (1 - ?fc) * c0 ! i * ?nc = ?nc"
    by (simp only: distrib_right)
  have "?fs * s1 ! i + (1 - ?fs) * s0 ! i = 1"
    unfolding s1(3) s0(3) type1_satellites_def by (rule conservation_scalar) (rule sat(2))
  then have "(?fs * s1 ! i + (1 - ?fs) * s0 ! i) * ?ns = ?ns" by simp
  then have es: "?fs * s1 ! i * ?ns + (1 - ?fs) * s0 ! i * ?ns = ?ns"
    by (simp only: distrib_right)
  from mean_ncen_nth [OF c1(1,2) i] obtain nc1 where
    nc1: "mean_ncen m p halo_type1 = Inr nc1" "nc1 ! i = c1 ! i * ?nc" by blast
  from mean_ncen_nth [OF c0(1,2) i] obtain nc0 where
    nc0: "mean_ncen m p halo_type0 = Inr nc0" "nc0 ! i = c0 ! i * ?nc" by blast
  from mean_nsat_nth [OF s1(1,2) i] obtain ns1 where
    ns1: "mean_nsat m p halo_type1 = Inr ns1" "ns1 ! i = s1 ! i * ?ns" by blast
  from mean_nsat_nth [OF s0(1,2) i] obtain ns0 where
    ns0: "mean_nsat m p halo_type0 = Inr ns0" "ns0 ! i = s0 ! i * ?ns" by blast
  from ec have mc: "?fc * nc1 ! i + (1 - ?fc) * nc0 ! i = ?nc"
    by (simp only: nc1(2) nc0(2) mult.assoc)
  from es have ms: "?fs * ns1 ! i + (1 - ?fs) * ns0 ! i = ?ns"
    by (simp only: ns1(2) ns0(2) mult.assoc)
  from c1(1) c0(1) s1(1) s0(1) ec es nc1(1) nc0(1) ns1(1) ns0(1) mc ms
  show ?thesis by blast
qed

text \<open>The conservation law at the middle element of a three-halo catalog of the concrete model.\<close>

theorem conservation_law_witness:
  "length [1, 1, 1 :: real] = length [11, 25 / 2, 14 :: real] \<and>
   length [0, 0, 0 :: real] = length [11, 25 / 2, 14 :: real] \<and>
   (1 :: nat) < length [11, 25 / 2, 14 :: real] \<and>
   [1, 1, 1 :: real] ! 1 = 1 \<and> [0, 0, 0 :: real] ! 1 = 0 \<and>
   0 \<le> halo_type1_fraction_centrals demo_model ([11, 25 / 2, 14] ! 1) \<and>
   halo_type1_fraction_centrals demo_model ([11, 25 / 2, 14] ! 1) \<le> 1 \<and>
   0 \<le> halo_type1_fraction_satellites demo_model ([11, 25 / 2, 14] ! 1) \<and>
   halo_type1_fraction_satellites demo_model ([11, 25 / 2, 14] ! 1) \<le> 1 \<and>
   (\<exists>c1 c0 s1 s0 nc1 nc0 ns1 ns0.
      destruction_centrals demo_model [11, 25 / 2, 14] [1, 1, 1] = Inr c1 \<and>
      destruction_centrals demo_model [11, 25 / 2, 14] [0, 0, 0] = Inr c0 \<and>
      destruction_satellites demo_model [11, 25 / 2, 14] [1, 1, 1] = Inr s1 \<and>
      destruction_satellites demo_model [11, 25 / 2, 14] [0, 0, 0] = Inr s0 \<and>
      halo_type1_fraction_centrals demo_model ([11, 25 / 2, 14] ! 1) * c1 ! 1 *
          baseline_mean_ncen demo_model ([11, 25 / 2, 14] ! 1) +
        (1 - halo_type1_fraction_centrals demo_model ([11, 25 / 2, 14] ! 1)) * c0 ! 1 *
          baseline_mean_ncen demo_model ([11, 25 / 2, 14] ! 1) =
        baseline_mean_ncen demo_model ([11, 25 / 2, 14] ! 1) \<and>
      halo_type1_fraction_satellites demo_model ([11, 25 / 2, 14] ! 1) * s1 ! 1 *
          baseline_mean_nsat demo_model ([11, 25 / 2, 14] ! 1) +
        (1 - halo_type1_fraction_satellites demo_model ([11, 25 / 2, 14] ! 1)) * s0 ! 1 *
          baseline_mean_nsat demo_model ([11, 25 / 2, 14] ! 1) =
        baseline_mean_nsat demo_model ([11, 25 / 2, 14] ! 1) \<and>
      mean_ncen demo_model [11, 25 / 2, 14] [1, 1, 1] = Inr nc1 \<and>
      mean_ncen demo_model [11, 25 / 2, 14] [0, 0, 0] = Inr nc0 \<and>
      mean_nsat demo_model [11, 25 / 2, 14] [1, 1, 1] = Inr ns1 \<and>
      mean_nsat demo_model [11, 25 / 2, 14] [0, 0, 0] = Inr ns0 \<and>
      halo_type1_fraction_centrals demo_model ([11, 25 / 2, 14] ! 1) * nc1 ! 1 +
        (1 - halo_type1_fraction_centrals demo_model ([11, 25 / 2, 14] ! 1)) * nc0 ! 1 =
        baseline_mean_ncen demo_model ([11, 25 / 2, 14] ! 1) \<and>
      halo_type1_fraction_satellites demo_model ([11, 25 / 2, 14] ! 1) * ns1 ! 1 +
        (1 - halo_type1_fraction_satellites demo_model ([11, 25 / 2, 14] ! 1)) * ns0 ! 1 =
        baseline_mean_nsat demo_model ([11, 25 / 2, 14] ! 1))"
proof -
  have h: "length [1, 1, 1 :: real] = length [11, 25 / 2, 14 :: real]"
    "length [0, 0, 0 :: real] = length [11, 25 / 2, 14 :: real]"
    "(1 :: nat) < length [11, 25 / 2, 14 :: real]"
    "[1, 1, 1 :: real] ! 1 = 1" "[0, 0, 0 :: real] ! 1 = 0"
    "0 \<le> halo_type1_fraction_centrals demo_model ([11, 25 / 2, 14] ! 1)"
    "halo_type1_fraction_centrals demo_model ([11, 25 / 2, 14] ! 1) \<le> 1"
    "0 \<le> halo_type1_fraction_satellites demo_model ([11, 25 / 2, 14] ! 1)"
    "halo_type1_fraction_satellites demo_model ([11, 25 / 2, 14] ! 1) \<le> 1"
    by (simp_all add: demo_model_def)
  from h conservation_law [OF h] show ?thesis by blast
qed

text \<open>
  Claim C2 (boundary override). At every element labelled type 1 whose type-1 fraction is
  exactly 1, \<open>destruction_centrals\<close> returns exactly 1, and so does
  \<open>destruction_satellites\<close> for the satellite fraction, whatever the unconstrained
  destruction function and the ceiling are there: the override wins over the floor at 0
  and over the ceiling.
\<close>

theorem boundary_override:
  assumes len: "length halo_type = length p" and i: "i < length p" and lab: "halo_type ! i = 1"
  shows "\<exists>c s. destruction_centrals m p halo_type = Inr c \<and>
               destruction_satellites m p halo_type = Inr s \<and>
               (halo_type1_fraction_centrals m (p ! i) = 1 \<longrightarrow> c ! i = 1) \<and>
               (halo_type1_fraction_satellites m (p ! i) = 1 \<longrightarrow> s ! i = 1)"
proof -
  from destruction_centrals_nth [OF len i, of m] lab
  obtain c where c: "destruction_centrals m p halo_type = Inr c"
    "c ! i = type1_centrals m (p ! i)" by auto
  from destruction_satellites_nth [OF len i, of m] lab
  obtain s where s: "destruction_satellites m p halo_type = Inr s"
    "s ! i = type1_satellites m (p ! i)" by auto
  show ?thesis
    by (simp add: c s type1_centrals_def type1_satellites_def clamped_type1_def)
qed

text \<open>
  The override at a halo where the unconstrained destruction is negative and the ceiling is 0.
\<close>

theorem boundary_override_witness:
  "length [1 :: real] = length [14 :: real] \<and> (0 :: nat) < length [14 :: real] \<and>
   [1 :: real] ! 0 = 1 \<and>
   unconstrained_central_destruction_halo_type1 demo_model 14 < 0 \<and>
   baseline_mean_ncen demo_model 14 = 0 \<and>
   halo_type1_fraction_centrals demo_model ([14] ! 0) = 1 \<and>
   halo_type1_fraction_satellites demo_model ([14] ! 0) = 1 \<and>
   (\<exists>c s. destruction_centrals demo_model [14] [1] = Inr c \<and>
          destruction_satellites demo_model [14] [1] = Inr s \<and> c ! 0 = 1 \<and> s ! 0 = 1)"
proof -
  have h: "length [1 :: real] = length [14 :: real]" "(0 :: nat) < length [14 :: real]"
    "[1 :: real] ! 0 = 1" by simp_all
  have f: "halo_type1_fraction_centrals demo_model ([14] ! 0) = 1"
    "halo_type1_fraction_satellites demo_model ([14] ! 0) = 1"
    "unconstrained_central_destruction_halo_type1 demo_model 14 < 0"
    "baseline_mean_ncen demo_model 14 = 0"
    by (simp_all add: demo_model_def)
  from boundary_override [OF h, of demo_model] f h show ?thesis by blast
qed

text \<open>
  Claim C3 (non-negativity). For every primary-property array, every halo-type labelling of
  the same length and every model whose type-1 fractions lie in [0, 1] on the array,
  \<open>destruction_centrals\<close> and \<open>destruction_satellites\<close> return arrays all of whose elements
  are non-negative, for halos of type 1 and of type 0 alike, also where the unconstrained
  destruction function is negative.
\<close>

theorem non_negativity:
  assumes len: "length halo_type = length p"
    and cen: "\<forall>x\<in>set p. 0 \<le> halo_type1_fraction_centrals m x \<and> halo_type1_fraction_centrals m x \<le> 1"
    and sat: "\<forall>x\<in>set p. 0 \<le> halo_type1_fraction_satellites m x \<and> halo_type1_fraction_satellites m x \<le> 1"
  shows "\<exists>c s. destruction_centrals m p halo_type = Inr c \<and>
               destruction_satellites m p halo_type = Inr s \<and>
               length c = length p \<and> length s = length p \<and>
               (\<forall>x\<in>set c. 0 \<le> x) \<and> (\<forall>x\<in>set s. 0 \<le> x)"
proof -
  let ?c = "fancy_set (map (type1_centrals m) p) (np_where_eq halo_type 0)
              (map (\<lambda>i. derived_type0 (type1_centrals m (p ! i))
                          (halo_type1_fraction_centrals m (p ! i))) (np_where_eq halo_type 0))"
  let ?s = "fancy_set (map (type1_satellites m) p) (np_where_eq halo_type 0)
              (map (\<lambda>i. derived_type0 (type1_satellites m (p ! i))
                          (halo_type1_fraction_satellites m (p ! i))) (np_where_eq halo_type 0))"
  have c: "destruction_centrals m p halo_type = Inr ?c"
    by (rule destruction_centrals_closed [OF len])
  have s: "destruction_satellites m p halo_type = Inr ?s"
    by (rule destruction_satellites_closed [OF len])
  have lc: "length ?c = length p" and ls: "length ?s = length p"
    by (simp_all add: length_fancy_set)
  have "0 \<le> ?c ! i" if "i < length p" for i
  proof -
    from that have "p ! i \<in> set p" by simp
    with cen have "0 \<le> halo_type1_fraction_centrals m (p ! i)"
      "halo_type1_fraction_centrals m (p ! i) \<le> 1" by auto
    with that show ?thesis
      by (simp add: fancy_set_map_nth type0_centrals_nonneg type1_centrals_nonneg)
  qed
  with lc have pc: "\<forall>x\<in>set ?c. 0 \<le> x" by (simp add: all_set_conv_all_nth)
  have "0 \<le> ?s ! i" if "i < length p" for i
  proof -
    from that have "p ! i \<in> set p" by simp
    with sat have "0 \<le> halo_type1_fraction_satellites m (p ! i)"
      "halo_type1_fraction_satellites m (p ! i) \<le> 1" by auto
    with that show ?thesis
      by (simp add: fancy_set_map_nth type0_satellites_nonneg type1_satellites_nonneg)
  qed
  with ls have ps: "\<forall>x\<in>set ?s. 0 \<le> x" by (simp add: all_set_conv_all_nth)
  from c s lc ls pc ps show ?thesis by blast
qed

text \<open>Non-negativity on a three-halo catalog with one type-1 and two type-0 halos.\<close>

theorem non_negativity_witness:
  "length [1, 0, 0 :: real] = length [11, 25 / 2, 14 :: real] \<and>
   list_all (\<lambda>x. 0 \<le> halo_type1_fraction_centrals demo_model x \<and>
                  halo_type1_fraction_centrals demo_model x \<le> 1) [11, 25 / 2, 14] \<and>
   list_all (\<lambda>x. 0 \<le> halo_type1_fraction_satellites demo_model x \<and>
                  halo_type1_fraction_satellites demo_model x \<le> 1) [11, 25 / 2, 14] \<and>
   (\<exists>c s. destruction_centrals demo_model [11, 25 / 2, 14] [1, 0, 0] = Inr c \<and>
          destruction_satellites demo_model [11, 25 / 2, 14] [1, 0, 0] = Inr s \<and>
          length c = length [11, 25 / 2, 14 :: real] \<and>
          length s = length [11, 25 / 2, 14 :: real] \<and>
          list_all (\<lambda>x. 0 \<le> x) c \<and> list_all (\<lambda>x. 0 \<le> x) s)"
proof -
  have len: "length [1, 0, 0 :: real] = length [11, 25 / 2, 14 :: real]" by simp
  have cen: "\<forall>x\<in>set [11, 25 / 2, 14]. 0 \<le> halo_type1_fraction_centrals demo_model x \<and>
               halo_type1_fraction_centrals demo_model x \<le> 1"
    by (simp add: demo_model_def)
  have sat: "\<forall>x\<in>set [11, 25 / 2, 14]. 0 \<le> halo_type1_fraction_satellites demo_model x \<and>
               halo_type1_fraction_satellites demo_model x \<le> 1"
    by (simp add: demo_model_def)
  from non_negativity [OF len cen sat] len cen sat show ?thesis
    by (simp add: list_all_iff)
qed

text \<open>
  Claim C4 (central ceiling clamp). At an element labelled type 1, the value returned by
  \<open>destruction_centrals\<close> does not exceed the ceiling returned by
  \<open>maximum_destruction_centrals\<close> for that element unless the type-1 fraction is 1 there
  (the override); the ceiling is the smaller of \<open>1 / F1\<close> and \<open>1 / N\<close> when both the type-1
  fraction \<open>F1\<close> and the baseline central occupation \<open>N\<close> are positive, and 0 when \<open>F1 = 0\<close>
  or \<open>N = 0\<close>; where \<open>F1 = 0\<close> and the unconstrained function is 5, \<open>destruction_centrals\<close>
  returns exactly 0.
\<close>

theorem central_ceiling_clamp:
  assumes len: "length halo_type = length p" and len': "length halo_type' = length p"
    and i: "i < length p" and lab: "halo_type ! i = 1" and lab': "halo_type' ! i = 1"
  shows "\<exists>out mx.
           destruction_centrals m p halo_type = Inr out \<and>
           maximum_destruction_centrals m p halo_type' = Inr mx \<and>
           (halo_type1_fraction_centrals m (p ! i) \<noteq> 1 \<longrightarrow> out ! i \<le> mx ! i) \<and>
           (0 < halo_type1_fraction_centrals m (p ! i) \<and> 0 < baseline_mean_ncen m (p ! i) \<longrightarrow>
              mx ! i = min (1 / halo_type1_fraction_centrals m (p ! i))
                           (1 / baseline_mean_ncen m (p ! i))) \<and>
           (halo_type1_fraction_centrals m (p ! i) = 0 \<or> baseline_mean_ncen m (p ! i) = 0 \<longrightarrow>
              mx ! i = 0) \<and>
           (halo_type1_fraction_centrals m (p ! i) = 0 \<and>
            unconstrained_central_destruction_halo_type1 m (p ! i) = 5 \<longrightarrow> out ! i = 0)"
proof -
  let ?f = "halo_type1_fraction_centrals m (p ! i)"
  let ?n = "baseline_mean_ncen m (p ! i)"
  from destruction_centrals_nth [OF len i, of m] lab
  obtain out where out: "destruction_centrals m p halo_type = Inr out"
    "out ! i = type1_centrals m (p ! i)" by auto
  from maximum_destruction_centrals_nth [OF len' i, of m] lab'
  obtain mx where mx: "maximum_destruction_centrals m p halo_type' = Inr mx"
    "mx ! i = ceiling_centrals ?f ?n" by auto
  have a: "?f \<noteq> 1 \<longrightarrow> out ! i \<le> mx ! i"
    by (simp add: out(2) mx(2) type1_centrals_def clamped_type1_le ceiling_centrals_nonneg)
  have b: "0 < ?f \<and> 0 < ?n \<longrightarrow> mx ! i = min (1 / ?f) (1 / ?n)"
    by (simp add: mx(2) ceiling_centrals_def min_def)
  have c: "?f = 0 \<or> ?n = 0 \<longrightarrow> mx ! i = 0"
    by (auto simp: mx(2) ceiling_centrals_def)
  have d: "?f = 0 \<and> unconstrained_central_destruction_halo_type1 m (p ! i) = 5 \<longrightarrow> out ! i = 0"
    by (simp add: out(2) type1_centrals_def clamped_type1_def ceiling_centrals_def)
  from out(1) mx(1) a b c d show ?thesis by blast
qed

text \<open>The scenario of the claim: type-1 fraction 0, unconstrained value 5, result 0.\<close>

theorem central_ceiling_clamp_witness:
  "length [1, 1 :: real] = length [11, 25 / 2 :: real] \<and>
   (0 :: nat) < length [11, 25 / 2 :: real] \<and> [1, 1 :: real] ! 0 = 1 \<and>
   halo_type1_fraction_centrals demo_model ([11, 25 / 2] ! 0) = 0 \<and>
   unconstrained_central_destruction_halo_type1 demo_model ([11, 25 / 2] ! 0) = 5 \<and>
   (\<exists>out mx. destruction_centrals demo_model [11, 25 / 2] [1, 1] = Inr out \<and>
             maximum_destruction_centrals demo_model [11, 25 / 2] [1, 1] = Inr mx \<and>
             out ! 0 \<le> mx ! 0 \<and> mx ! 0 = 0 \<and> out ! 0 = 0)"
proof -
  have h: "length [1, 1 :: real] = length [11, 25 / 2 :: real]"
    "length [1, 1 :: real] = length [11, 25 / 2 :: real]"
    "(0 :: nat) < length [11, 25 / 2 :: real]" "[1, 1 :: real] ! 0 = 1" "[1, 1 :: real] ! 0 = 1"
    by simp_all
  have f: "halo_type1_fraction_centrals demo_model ([11, 25 / 2] ! 0) = 0"
    "unconstrained_central_destruction_halo_type1 demo_model ([11, 25 / 2] ! 0) = 5"
    by (simp_all add: demo_model_def)
  from central_ceiling_clamp [OF h, of demo_model] f h show ?thesis by auto
qed

section \<open>Zheng07\_HOD\_Model: construction, key validation, published parameters\<close>

text \<open>
  Claim C6 (key-set validation of a supplied dictionary). The claim expects construction
  with a dictionary whose key set is not the required one to fail with the validation
  error, which the code raises as TypeError. The constructor never binds the supplied
  dictionary: for the one-key dictionary below it fails with AttributeError, raised by
  \<open>self.parameter_dict.keys()\<close> on \<open>None\<close>, before any key set is compared. Had the
  dictionary been bound to the instance, \<open>require_correct_keys\<close> would have raised the
  validation error, as the third conjunct shows.
\<close>

theorem wrong_key_set_raises_attribute_error:
  "set (map fst [(''logMmin_cen'', 12 :: real)]) \<noteq> zheng07_keys \<and>
   Zheng07_HOD_Model_init (Some [(''logMmin_cen'', 12)]) PyNone = Inl AttributeError \<and>
   require_correct_keys (HOD_Model_init (Some [(''logMmin_cen'', 12)]) None) = Inl TypeError"
  by (auto simp: Zheng07_HOD_Model_init_def HOD_Model_init_def py_bind_def Let_def
      require_correct_keys_closed zheng07_keys_def)

text \<open>
  Claim C7 (a supplied parameter dictionary is ignored). For every supplied dictionary and
  every threshold argument, \<open>Zheng07_HOD_Model.__init__\<close> leaves \<open>self.parameter_dict\<close> at
  \<open>None\<close> and construction ends in the AttributeError of \<open>require_correct_keys\<close>; it
  neither completes nor compares the supplied key set.
\<close>

theorem supplied_parameter_dict_ignored:
  "Zheng07_HOD_Model_init (Some d) t = Inl AttributeError"
  by (simp add: Zheng07_HOD_Model_init_def HOD_Model_init_def py_bind_def Let_def
      require_correct_keys_closed)

text \<open>The same for a dictionary with exactly the required keys and valid values.\<close>

theorem supplied_parameter_dict_ignored_witness:
  "set (map fst [(''logMmin_cen'', 12.02), (''sigma_logM'', 0.26), (''logM0_sat'', 11.38),
                 (''logM1_sat'', 13.31), (''alpha_sat'', 1.06), (''fconc'', 1 :: real)]) =
     zheng07_keys \<and>
   Zheng07_HOD_Model_init
     (Some [(''logMmin_cen'', 12.02), (''sigma_logM'', 0.26), (''logM0_sat'', 11.38),
            (''logM1_sat'', 13.31), (''alpha_sat'', 1.06), (''fconc'', 1)]) (PyFloat (- 20)) =
     Inl AttributeError"
  using supplied_parameter_dict_ignored
    [of "[(''logMmin_cen'', 12.02), (''sigma_logM'', 0.26), (''logM0_sat'', 11.38),
          (''logM1_sat'', 13.31), (''alpha_sat'', 1.06), (''fconc'', 1)]" "PyFloat (- 20)"]
  by (auto simp: zheng07_keys_def)

text \<open>
  Claim C9 (published-parameter threshold lookup). \<open>published_parameters\<close> raises (the
  code's TypeError is its configuration error) exactly when a threshold is given that is
  not a number equal to one of the nine published values; a non-numeric threshold raises.
  With no threshold it does not raise: it records a warning, sets the threshold to -19.5
  and returns the parameters published for -19.5.
\<close>

theorem published_parameters_threshold_lookup:
  "(published_parameters self t = Inl TypeError \<longleftrightarrow> t \<noteq> PyNone \<and> \<not> is_published t) \<and>
   ((\<exists>r. published_parameters self t = Inr r) \<longleftrightarrow> t = PyNone \<or> is_published t) \<and>
   published_parameters self (PyStr s) = Inl TypeError \<and>
   published_parameters self PyNone =
     Inr ([(''logMmin_cen'', 11.75), (''sigma_logM'', 0.28), (''logM0_sat'', 11.69),
           (''logM1_sat'', 13.01), (''alpha_sat'', 1.06), (''fconc'', 1)],
          self\<lparr> warnings_issued :=
                   warnings_issued self @ [''HOD threshold unspecified: setting to -19.5''],
                 threshold := Some (- 19.5) \<rparr>) \<and>
   (\<exists>self'. published_parameters self (PyFloat (- 19.5)) =
      Inr ([(''logMmin_cen'', 11.75), (''sigma_logM'', 0.28), (''logM0_sat'', 11.69),
            (''logM1_sat'', 13.01), (''alpha_sat'', 1.06), (''fconc'', 1)], self'))"
proof -
  have in19: "(- 19.5 :: real) \<in> set published_thresholds"
    by (simp add: published_thresholds_def)
  have none: "published_parameters self PyNone =
     Inr ([(''logMmin_cen'', 11.75), (''sigma_logM'', 0.28), (''logM0_sat'', 11.69),
           (''logM1_sat'', 13.01), (''alpha_sat'', 1.06), (''fconc'', 1)],
          self\<lparr> warnings_issued :=
                   warnings_issued self @ [''HOD threshold unspecified: setting to -19.5''],
                 threshold := Some (- 19.5) \<rparr>)"
    using in19
    by (simp add: published_parameters_PyNone published_parameters_PyFloat np_where_eq_minus_19_5
        logMmin_cen_array_def sigma_logM_array_def logM0_array_def logM1_array_def
        alpha_sat_array_def)
  have flt: "\<exists>self'. published_parameters self (PyFloat (- 19.5)) =
      Inr ([(''logMmin_cen'', 11.75), (''sigma_logM'', 0.28), (''logM0_sat'', 11.69),
            (''logM1_sat'', 13.01), (''alpha_sat'', 1.06), (''fconc'', 1)], self')"
    using in19
    by (simp add: published_parameters_PyFloat np_where_eq_minus_19_5
        logMmin_cen_array_def sigma_logM_array_def logM0_array_def logM1_array_def
        alpha_sat_array_def)
  have err: "published_parameters self t = Inl TypeError \<longleftrightarrow> t \<noteq> PyNone \<and> \<not> is_published t"
    by (cases t)
       (simp_all add: none published_parameters_PyInt published_parameters_PyFloat
          published_parameters_PyStr is_published_def)
  have ok: "(\<exists>r. published_parameters self t = Inr r) \<longleftrightarrow> t = PyNone \<or> is_published t"
    by (cases t)
       (simp_all add: none published_parameters_PyInt published_parameters_PyFloat
          published_parameters_PyStr is_published_def)
  from err ok none flt show ?thesis
    by (simp add: published_parameters_PyStr)
qed

text \<open>A published value, an unpublished float, an unpublished int, a string and \<open>None\<close>.\<close>

theorem published_parameters_threshold_lookup_witness:
  "published_parameters (HOD_Model_init None None) (PyFloat (- 19)) \<noteq> Inl TypeError \<and>
   published_parameters (HOD_Model_init None None) (PyFloat (- 19.2)) = Inl TypeError \<and>
   published_parameters (HOD_Model_init None None) (PyInt 3) = Inl TypeError \<and>
   published_parameters (HOD_Model_init None None) (PyStr ''-19'') = Inl TypeError \<and>
   published_parameters (HOD_Model_init None None) PyNone \<noteq> Inl TypeError"
  using published_parameters_threshold_lookup [of "HOD_Model_init None None" "PyFloat (- 19)"]
    published_parameters_threshold_lookup [of "HOD_Model_init None None" "PyFloat (- 19.2)"]
    published_parameters_threshold_lookup [of "HOD_Model_init None None" "PyInt 3"]
    published_parameters_threshold_lookup [of "HOD_Model_init None None" "PyStr ''-19''"]
    published_parameters_threshold_lookup [of "HOD_Model_init None None" "PyNone"]
  by (simp add: is_published_def published_thresholds_def)

text \<open>
  Claim C10 (construction overwrites the threshold attribute). Constructed without a
  parameter dictionary and with a published threshold \<open>t\<close> or with no threshold, the
  instance is completed with \<open>threshold = -20.0\<close>, because \<open>require_correct_keys\<close> calls
  \<open>published_parameters(threshold = -20)\<close>, which rebinds the attribute, while
  \<open>parameter_dict\<close> holds the dictionary \<open>published_parameters\<close> returns for \<open>t\<close>.
\<close>

theorem construction_overwrites_threshold:
  assumes "t = PyNone \<or> is_published t"
  shows "\<exists>d inst.
           (\<forall>self0. \<exists>self'. published_parameters self0 t = Inr (d, self')) \<and>
           Zheng07_HOD_Model_init None t = Inr inst \<and>
           threshold inst = Some (- 20) \<and>
           parameter_dict inst = Some d"
proof -
  let ?s = "\<lparr> publication = [''arXiv:0703457''], parameter_dict = None, threshold = None,
             warnings_issued = [] \<rparr>"
  from published_parameters_any_instance [OF assms]
  obtain d where d: "\<And>self0. \<exists>self'. published_parameters self0 t = Inr (d, self')" by blast
  from d [of ?s] obtain self' where p: "published_parameters ?s t = Inr (d, self')" by blast
  from published_parameters_keys [OF p] have k: "set (map fst d) = zheng07_keys" .
  have "Zheng07_HOD_Model_init None t =
          Inr (self'\<lparr> parameter_dict := Some d, threshold := Some (- 20) \<rparr>)"
    using k
    by (simp add: Zheng07_HOD_Model_init_def Let_def py_bind_def p require_correct_keys_closed
        HOD_Model_init_def)
  with d show ?thesis by simp
qed

text \<open>Threshold -21: the instance holds the parameters of -21 and the threshold -20.\<close>

theorem construction_overwrites_threshold_witness:
  "(PyFloat (- 21) = PyNone \<or> is_published (PyFloat (- 21))) \<and>
   (\<exists>inst. Zheng07_HOD_Model_init None (PyFloat (- 21)) = Inr inst \<and>
           threshold inst = Some (- 20) \<and>
           parameter_dict inst =
             Some [(''logMmin_cen'', 12.79), (''sigma_logM'', 0.39), (''logM0_sat'', 11.92),
                   (''logM1_sat'', 13.94), (''alpha_sat'', 1.15), (''fconc'', 1)])"
proof -
  have h: "PyFloat (- 21) = PyNone \<or> is_published (PyFloat (- 21))"
    by (simp add: is_published_def published_thresholds_def)
  have i: "np_where_eq threshold_array (- 21) = [6]"
    by (simp add: threshold_array_eq published_thresholds_def np_where_eq_def upt_0_9)
  have "published_parameters self0 (PyFloat (- 21)) =
        Inr ([(''logMmin_cen'', 12.79), (''sigma_logM'', 0.39), (''logM0_sat'', 11.92),
              (''logM1_sat'', 13.94), (''alpha_sat'', 1.15), (''fconc'', 1)],
             self0\<lparr> threshold := Some (- 21) \<rparr>)" for self0
    by (simp add: published_parameters_PyFloat i published_thresholds_def
        logMmin_cen_array_def sigma_logM_array_def logM0_array_def logM1_array_def
        alpha_sat_array_def)
  with construction_overwrites_threshold [OF h] h show ?thesis by auto
qed

section \<open>halo\_type\_calculator: the split rule and catalogs with a narrow range\<close>

text \<open>
  On a catalog of ten halos whose primary property spans four bin widths, the function
  does what its docstring describes: three bins, and in each bin the
  \<open>round((1 - f1) * n)\<close> halos of lowest secondary property become type 0 (here
  \<open>f1 = 0.3\<close>: 4 of 5, 1 of 2 and 2 of 3). The secondary properties are pairwise
  distinct, so the sorting permutation of every bin is unique.
\<close>

lemma halo_type_calculator_example:
  "halo_type_calculator stable_argsort (1 / 100000)
     [12, 12.05, 12.1, 12.15, 12.2, 12.3, 12.33, 12.4, 12.02, 12.03]
     [5, 3, 8, 1, 9, 2, 7, 4, 6, 0] (\<lambda>x. 3 / 10) (1 / 10) =
   Inr [0, 0, 1, 0, 1, 0, 1, 0, 0, 0]"
  by code_simp

text \<open>
  The split rule in general, for catalogs that get at least two bin edges: with a positive
  \<open>default_bin_max_epsilon\<close>, a positive \<open>bin_spacing\<close> and a type-fraction function with
  values in [0, 1], the function returns, every halo lies in a bin \<open>b\<close> between two
  consecutive edges, the split index \<open>k = round(n * (1 - f1))\<close> of a bin with \<open>n\<close> members,
  \<open>f1\<close> evaluated at the bin's midpoint, lies between 0 and \<open>n\<close>, and the member of rank
  \<open>r\<close> in argsort order of the secondary property has type 0 if \<open>r < k\<close> and type 1
  otherwise. This holds for every function \<open>argsort\<close> that returns a permutation
  sorting its argument (\<open>is_argsort\<close>), whatever order it gives to equal values, so
  exactly \<open>k\<close> members, of lowest secondary property, are of type 0. The bin edges are
  those of exact arithmetic.
\<close>

lemma halo_type_calculator_split_rule:
  assumes ar: "is_argsort argsort" and ne: "p \<noteq> []" and ls: "length s = length p"
    and eps: "0 < eps" and bs: "0 < bin_spacing"
    and nb: "2 \<le> py_round ((Max (set p) + eps - Min (set p)) / bin_spacing)"
    and f01: "\<forall>x. 0 \<le> f x \<and> f x \<le> 1"
  shows "\<exists>ht. halo_type_calculator argsort eps p s f bin_spacing = Inr ht \<and> length ht = length p \<and>
           (\<forall>b\<in>set (calculator_bin_indices eps p bin_spacing).
              0 \<le> b \<and> Suc (nat b) < length (calculator_bins eps p bin_spacing) \<and>
              0 \<le> calculator_split_index eps p f bin_spacing b \<and>
              calculator_split_index eps p f bin_spacing b \<le>
                int (length (bin_members (calculator_bin_indices eps p bin_spacing) b)) \<and>
              (\<forall>r<length (bin_members (calculator_bin_indices eps p bin_spacing) b).
                 ht ! (bin_members (calculator_bin_indices eps p bin_spacing) b !
                        (argsort
                           (map (\<lambda>j. s ! j)
                              (bin_members (calculator_bin_indices eps p bin_spacing) b)) ! r)) =
                 (if int r < calculator_split_index eps p f bin_spacing b then 0 else 1)))"
proof -
  define idx where "idx = calculator_bin_indices eps p bin_spacing"
  define bins where "bins = calculator_bins eps p bin_spacing"
  define bsf where
    "bsf = map (\<lambda>i. 1 - f (bins ! i + (bins ! Suc i - bins ! i) / 2)) [0..<length bins - 1]"
  have li: "length idx = length p" by (simp add: idx_def calculator_bin_indices_def)
  have lb: "length bsf = length bins - 1" by (simp add: bsf_def)
  from calculator_bins_facts [OF ne eps nb]
  have rng: "\<forall>b\<in>set idx. 0 \<le> b \<and> b < int (length bsf)"
    by (simp add: idx_def bins_def lb)
  have ls': "length s = length idx" by (simp add: ls li)
  have lh: "length (replicate (length p) (1::real)) = length idx" by (simp add: li)
  from rng have rng': "\<forall>b\<in>set (remdups idx). 0 \<le> b \<and> b < int (length bsf)" by simp
  from halo_type_loop_nth [OF ls' lh rng']
  obtain ht where run: "halo_type_loop argsort s bsf idx (remdups idx) (replicate (length p) 1) = Inr ht"
    and lht: "length ht = length idx"
    and nth: "\<forall>j<length idx. ht ! j =
               (if idx ! j \<in> set (remdups idx) \<and>
                   bin_rank idx (idx ! j) j \<in> bin_zero_ranks argsort s bsf idx (idx ! j)
                then 0 else replicate (length p) 1 ! j)"
    by blast
  have calc: "halo_type_calculator argsort eps p s f bin_spacing = Inr ht"
    using halo_type_calculator_unfold [OF ne eps bs nb, of argsort s f] run
    by (simp add: idx_def bins_def bsf_def)
  have rule: "0 \<le> b \<and> Suc (nat b) < length bins \<and>
              0 \<le> calculator_split_index eps p f bin_spacing b \<and>
              calculator_split_index eps p f bin_spacing b \<le> int (length (bin_members idx b)) \<and>
              (\<forall>r<length (bin_members idx b).
                 ht ! (bin_members idx b ! (argsort (map (\<lambda>j. s ! j) (bin_members idx b)) ! r)) =
                 (if int r < calculator_split_index eps p f bin_spacing b then 0 else 1))"
    if b: "b \<in> set idx" for b
  proof -
    define members where "members = bin_members idx b"
    define n where "n = length members"
    define order where "order = argsort (map (\<lambda>j. s ! j) members)"
    define k where "k = calculator_split_index eps p f bin_spacing b"
    define mid where "mid = bins ! nat b + (bins ! Suc (nat b) - bins ! nat b) / 2"
    from rng b have b0: "0 \<le> b" and b1: "b < int (length bsf)" by simp_all
    then have nb1: "nat b < length bins - 1" by (simp add: lb)
    then have sb: "Suc (nat b) < length bins" by simp
    have frac: "bsf ! nat b = 1 - f mid"
      using nb1 by (simp add: bsf_def mid_def)
    have kdef: "k = py_round (real n * (1 - f mid))"
      by (simp add: k_def calculator_split_index_def n_def members_def idx_def bins_def mid_def)
    from f01 have fm: "0 \<le> 1 - f mid" "1 - f mid \<le> 1" by (simp_all add: f01)
    have x0: "0 \<le> real n * (1 - f mid)" using fm by simp
    have x1: "real n * (1 - f mid) \<le> real n"
      using fm mult_left_mono [of "1 - f mid" 1 "real n"] by simp
    from py_round_bounds [OF x0 x1] have k0: "0 \<le> k" and kn: "k \<le> int n"
      by (simp_all add: kdef)
    have lo: "length order = n" by (simp add: order_def is_argsort_length [OF ar] n_def)
    have sec: "bin_secondary s idx b = map (\<lambda>j. s ! j) members"
      unfolding members_def by (rule bin_secondary_eq [OF ls'])
    have zr: "bin_zero_ranks argsort s bsf idx b = set (take (nat k) order)"
      using k0 by (simp add: bin_zero_ranks_def Let_def sec order_def [symmetric] lo frac
          kdef [symmetric] py_slice_to_def)
    have "ht ! (members ! (order ! r)) = (if int r < k then 0 else 1)" if r: "r < n" for r
    proof -
      from r have "order ! r \<in> set order" by (simp add: lo)
      moreover from ar have "set order = {0..<length (map (\<lambda>j. s ! j) members)}"
        unfolding order_def by (simp add: is_argsort_def)
      ultimately have q: "order ! r < length (bin_members idx b)"
        by (simp add: members_def)
      define j where "j = members ! (order ! r)"
      from bin_members_nth [OF q] have jl: "j < length idx" and jb: "idx ! j = b"
        by (simp_all add: j_def members_def)
      from bin_rank_members [OF q] have rk: "bin_rank idx b j = order ! r"
        by (simp add: j_def members_def)
      from r have r': "r < length (map (\<lambda>j. s ! j) members)" by (simp add: n_def)
      have "order ! r \<in> set (take (nat k) order) \<longleftrightarrow> r < nat k"
        unfolding order_def by (rule is_argsort_take_iff [OF ar r'])
      also have "\<dots> \<longleftrightarrow> int r < k" using k0 by linarith
      finally have mem: "order ! r \<in> set (take (nat k) order) \<longleftrightarrow> int r < k" .
      from nth jl have "ht ! j =
          (if idx ! j \<in> set (remdups idx) \<and>
              bin_rank idx (idx ! j) j \<in> bin_zero_ranks argsort s bsf idx (idx ! j)
           then 0 else replicate (length p) 1 ! j)" by simp
      with jl jb b li show ?thesis
        by (simp add: rk zr mem j_def [symmetric])
    qed
    with b0 sb k0 kn show ?thesis
      by (simp add: members_def n_def order_def k_def)
  qed
  from calc lht li rule show ?thesis
    by (simp add: idx_def bins_def)
qed

text \<open>
  Claim C5 (classifier split rule, for every non-empty catalog). The number of bin edges is
  \<open>int(round((max + epsilon - min) / bin_spacing))\<close>. When the primary property of the
  catalog spans less than one and a half bin widths this number is 0 or 1, there is no bin
  and \<open>bin_splitting_fraction\<close> is empty, and the first iteration of the loop raises
  IndexError at \<open>bin_splitting_fraction[bin_index_i]\<close>: no halo type is returned. The
  theorem shows it for a two-halo and a one-halo catalog with \<open>bin_spacing = 0.1\<close>, for
  every type-fraction function, every value of \<open>default_bin_max_epsilon\<close> from 0 up to
  0.05 and every \<open>argsort\<close>.
\<close>

theorem halo_type_calculator_narrow_catalog:
  assumes "0 \<le> eps" and "eps < 1 / 20"
  shows "halo_type_calculator argsort eps [12, 12.1] [1, 2] f (1 / 10) = Inl IndexError \<and>
         halo_type_calculator argsort eps [12] [1] f (1 / 10) = Inl IndexError"
proof -
  have r1: "py_round ((Max (set [12, 12.1 :: real]) + eps - Min (set [12, 12.1 :: real])) / (1 / 10)) = 1"
    using assms by (intro py_round_one) simp_all
  have r0: "py_round ((Max (set [12 :: real]) + eps - Min (set [12 :: real])) / (1 / 10)) = 0"
    using assms by (intro py_round_zero) simp_all
  have a: "halo_type_calculator argsort eps [12, 12.1] [1, 2] f (1 / 10) = Inl IndexError"
    unfolding halo_type_calculator_def Let_def r1
    by (simp add: np_linspace_def np_diff_def np_digitize_def np_zeros_def py_bind_def
        halo_type_bin_step_def bool_index_def py_getitem_def Let_def)
  have b: "halo_type_calculator argsort eps [12] [1] f (1 / 10) = Inl IndexError"
    unfolding halo_type_calculator_def Let_def r0
    by (simp add: np_linspace_def np_diff_def np_digitize_def np_zeros_def py_bind_def
        halo_type_bin_step_def bool_index_def py_getitem_def Let_def)
  from a b show ?thesis by simp
qed

text \<open>The same with \<open>default_bin_max_epsilon = 1e-5\<close> and the constant fraction 0.3.\<close>

theorem halo_type_calculator_narrow_catalog_witness:
  "(0 :: real) \<le> 1 / 100000 \<and> (1 :: real) / 100000 < 1 / 20 \<and>
   halo_type_calculator stable_argsort (1 / 100000) [12, 12.1] [1, 2] (\<lambda>x. 3 / 10) (1 / 10) =
     Inl IndexError \<and>
   halo_type_calculator stable_argsort (1 / 100000) [12] [1] (\<lambda>x. 3 / 10) (1 / 10) =
     Inl IndexError"
proof -
  have h: "(0 :: real) \<le> 1 / 100000" "(1 :: real) / 100000 < 1 / 20" by simp_all
  from halo_type_calculator_narrow_catalog [OF h] h show ?thesis by blast
qed

end

